theory Spec2Isabelle
  imports Main "HOL-Library.Char_ord" "HOL-Library.List_Lexorder" "HOL-Library.Product_Lexorder"
begin

section \<open>Exceptions\<close>

text \<open>
  The exceptions that \<^verbatim>\<open>collate.py\<close> raises, catches or lets through.
  \<open>DatasetException\<close> carries the fields its constructor stores: the name of the dump
  file and the two row indices (\<open>None\<close> is Python's \<^verbatim>\<open>None\<close>).
  \<open>WebDriverException\<close> stands for every other failure the browser driver can raise
  on a click.
\<close>

datatype exn =
    StaleElementReferenceException
  | TimeoutException
  | WebDriverException
  | ValueError
  | TypeError
  | IndexError
  | KeyError
  | OSError
  | UnboundLocalError
  | DatasetException string nat "nat option"

section \<open>Python string operations used by the row model\<close>

text \<open>
  Strings are lists of characters. A \<open>char\<close> is read as the code point of the same
  number, so the texts of the model are the Latin-1 texts.
\<close>

text \<open>\<^verbatim>\<open>text.startswith(pat)\<close> and \<^verbatim>\<open>pat in text\<close> (substring test).\<close>

fun startswith :: "string \<Rightarrow> string \<Rightarrow> bool" where
  "startswith cs [] = True"
| "startswith [] (p # ps) = False"
| "startswith (c # cs) (p # ps) = (c = p \<and> startswith cs ps)"

fun contains :: "string \<Rightarrow> string \<Rightarrow> bool" where
  "contains pat [] = (pat = [])"
| "contains pat (c # cs) = (startswith (c # cs) pat \<or> contains pat cs)"

text \<open>\<^verbatim>\<open>text.split(sep)\<close> for a one-character separator: never an empty list.\<close>

fun split :: "char \<Rightarrow> string \<Rightarrow> string list" where
  "split sep [] = [[]]"
| "split sep (c # cs) =
     (if c = sep then [] # split sep cs
      else (case split sep cs of [] \<Rightarrow> [[c]] | l # ls \<Rightarrow> (c # l) # ls))"

text \<open>
  \<^verbatim>\<open>text.rsplit(sep, 1)\<close> for a one-character separator: one split at the last
  occurrence of \<open>sep\<close>, or the whole text as the only element when there is none.
\<close>

definition rsplit1 :: "char \<Rightarrow> string \<Rightarrow> string list" where
  "rsplit1 sep s =
     (if sep \<in> set s
      then [rev (tl (dropWhile (\<lambda>c. c \<noteq> sep) (rev s))), rev (takeWhile (\<lambda>c. c \<noteq> sep) (rev s))]
      else [s])"

text \<open>\<^verbatim>\<open>a, b = xs\<close>: unpacking into two targets raises ValueError unless \<open>xs\<close> has two elements.\<close>

fun unpack2 :: "'a list \<Rightarrow> exn + ('a \<times> 'a)" where
  "unpack2 [a, b] = Inr (a, b)"
| "unpack2 xs = Inl ValueError"

text \<open>\<^verbatim>\<open>s.replace(c, '')\<close> for a one-character \<open>c\<close>.\<close>

definition replace_empty :: "char \<Rightarrow> string \<Rightarrow> string" where
  "replace_empty c s = filter (\<lambda>x. x \<noteq> c) s"

text \<open>
  \<^verbatim>\<open>int(s)\<close> in base 10: surrounding whitespace is dropped, one sign is allowed, then
  at least one digit, with single underscores allowed between digits. Anything else raises
  ValueError. The whitespace that \<^verbatim>\<open>int\<close> drops is tab to carriage return, the space,
  and the two Latin-1 spaces beyond ASCII (next line and no-break space); the separators
  28 to 31, which \<^verbatim>\<open>str.isspace\<close> counts as whitespace, are not dropped. (The
  interpreter's configurable limit on the number of digits is a setting of the interpreter,
  not of this program, and is left out.)
\<close>

definition int_space :: "char \<Rightarrow> bool" where
  "int_space c \<longleftrightarrow> of_char c \<in> {9, 10, 11, 12, 13, 32, 133, 160 :: nat}"

definition strip :: "string \<Rightarrow> string" where
  "strip s = rev (dropWhile int_space (rev (dropWhile int_space s)))"

definition digit_val :: "char \<Rightarrow> int option" where
  "digit_val c =
     (let n = (of_char c :: nat) in if 48 \<le> n \<and> n \<le> 57 then Some (int n - 48) else None)"

fun parse_digits :: "int \<Rightarrow> string \<Rightarrow> int option" where
  "parse_digits acc [] = Some acc"
| "parse_digits acc [c] =
     (case digit_val c of None \<Rightarrow> None | Some v \<Rightarrow> Some (acc * 10 + v))"
| "parse_digits acc (c # d # ds) =
     (if c = CHR ''_''
      then (case digit_val d of None \<Rightarrow> None | Some v \<Rightarrow> parse_digits (acc * 10 + v) ds)
      else (case digit_val c of None \<Rightarrow> None | Some v \<Rightarrow> parse_digits (acc * 10 + v) (d # ds)))"

definition parse_unsigned :: "string \<Rightarrow> int option" where
  "parse_unsigned s =
     (case s of [] \<Rightarrow> None
      | d # ds \<Rightarrow> (case digit_val d of None \<Rightarrow> None | Some v \<Rightarrow> parse_digits v ds))"

definition py_int :: "string \<Rightarrow> exn + int" where
  "py_int s =
     (case strip s of
        [] \<Rightarrow> Inl ValueError
      | c # cs \<Rightarrow>
          (case (if c = CHR ''-'' then map_option uminus (parse_unsigned cs)
                 else if c = CHR ''+'' then parse_unsigned cs
                 else parse_unsigned (c # cs)) of
             None \<Rightarrow> Inl ValueError
           | Some n \<Rightarrow> Inr n))"

section \<open>Table and Row\<close>

datatype table_type = Object | Link

text \<open>
  A Row as its constructor leaves it: the element it was built from, the table type, and
  the name and value parsed from its text line.
\<close>

record 'e Row =
  web_element :: 'e
  table_type :: table_type
  name :: string
  "value" :: int

text \<open>\<^verbatim>\<open>Row.__init__\<close> (lines 148 to 153).\<close>

definition Row_init :: "'e \<Rightarrow> string \<Rightarrow> table_type \<Rightarrow> exn + 'e Row" where
  "Row_init e text tt =
     (case unpack2 (rsplit1 CHR '' '' text) of
        Inl err \<Rightarrow> Inl err
      | Inr (n, v) \<Rightarrow>
          (case py_int (replace_empty CHR '','' v) of
             Inl err \<Rightarrow> Inl err
           | Inr i \<Rightarrow> Inr \<lparr>web_element = e, table_type = tt, name = n, value = i\<rparr>))"

text \<open>
  What a table element of the page shows when it is read: the row elements the locator
  finds under it, and its rendered text.
\<close>

record 'e table_dom =
  row_elements :: "'e list"
  element_text :: string

text \<open>
  \<^verbatim>\<open>WebDriverWait(...).until(EC.presence_of_all_elements_located(...))\<close>: the wait
  returns the elements once there is at least one, and raises TimeoutException when none
  appears.
\<close>

definition wait_all :: "'a list \<Rightarrow> exn + 'a list" where
  "wait_all found = (if found = [] then Inl TimeoutException else Inr found)"

text \<open>\<^verbatim>\<open>is_meaningful\<close> (lines 109 and 110).\<close>

definition is_meaningful :: "string \<Rightarrow> bool" where
  "is_meaningful t \<longleftrightarrow> t \<noteq> [] \<and> \<not> contains ''All'' t \<and> \<not> contains ''Total'' t"

text \<open>Lines 111 to 114: the text lines, the indices to skip, the lines that are kept.\<close>

definition text_indices_to_skip :: "string list \<Rightarrow> nat list" where
  "text_indices_to_skip text_rows =
     map fst (filter (\<lambda>(i, r). \<not> is_meaningful r) (enumerate 0 text_rows))"

definition text_rows :: "string \<Rightarrow> string list" where
  "text_rows txt =
     (let rows = split (CHR 0x0A) txt
      in map snd (filter (\<lambda>(i, r). i \<notin> set (text_indices_to_skip rows)) (enumerate 0 rows)))"

text \<open>
  \<^verbatim>\<open>xs[n:]\<close> for an integer \<open>n\<close>: a negative \<open>n\<close> counts from the end, and a start
  before the beginning is the beginning.
\<close>

definition slice_from :: "'a list \<Rightarrow> int \<Rightarrow> 'a list" where
  "slice_from xs n = (if 0 \<le> n then drop (nat n) xs else drop (nat (int (length xs) + n)) xs)"

text \<open>Lines 115 and 116, and the pairs that \<^verbatim>\<open>zip\<close> forms on line 119.\<close>

definition paired :: "'e list \<Rightarrow> string list \<Rightarrow> ('e \<times> string) list" where
  "paired elems rows =
     (let n_elements_to_skip = int (length elems) - int (length rows)
      in zip (slice_from elems n_elements_to_skip) rows)"

text \<open>The list comprehension of line 119: the first Row that fails to build raises.\<close>

fun make_rows :: "table_type \<Rightarrow> ('e \<times> string) list \<Rightarrow> exn + 'e Row list" where
  "make_rows tt [] = Inr []"
| "make_rows tt ((e, t) # ps) =
     (case Row_init e t tt of
        Inl err \<Rightarrow> Inl err
      | Inr r \<Rightarrow> (case make_rows tt ps of Inl err \<Rightarrow> Inl err | Inr rs \<Rightarrow> Inr (r # rs)))"

text \<open>
  \<^verbatim>\<open>Table.calculate_rows\<close> (lines 94 to 119) on the table element it reads. Both
  table types wait for their row elements in the same way, with different locators.
\<close>

definition calculate_rows :: "table_type \<Rightarrow> 'e table_dom \<Rightarrow> exn + 'e Row list" where
  "calculate_rows tt tbl =
     (case wait_all (row_elements tbl) of
        Inl err \<Rightarrow> Inl err
      | Inr elems \<Rightarrow> make_rows tt (paired elems (text_rows (element_text tbl))))"

text \<open>
  The spec's wording of the parse, for comparison with \<open>Row_init\<close>: the line is split
  at its last run of whitespace, the name before the run and the value text after it.
  Whitespace is what \<^verbatim>\<open>str.isspace\<close> accepts.
\<close>

definition isspace :: "char \<Rightarrow> bool" where
  "isspace c \<longleftrightarrow> of_char c \<in> {9, 10, 11, 12, 13, 28, 29, 30, 31, 32, 133, 160 :: nat}"

definition spec_split_last_whitespace_run :: "string \<Rightarrow> string \<times> string" where
  "spec_split_last_whitespace_run s =
     (rev (dropWhile isspace (dropWhile (\<lambda>c. \<not> isspace c) (rev s))),
      rev (takeWhile (\<lambda>c. \<not> isspace c) (rev s)))"

section \<open>The dataset and its frame\<close>

text \<open>
  A Python dict keeps its keys in insertion order and holds each key once. It is modelled
  as an association list; \<open>dict_set\<close> is \<^verbatim>\<open>d[k] = v\<close>, which replaces the value of a key
  that is present (the key keeps its place) and appends a new key at the end.
\<close>

type_synonym ('k, 'v) dict = "('k \<times> 'v) list"

fun dict_set :: "('k, 'v) dict \<Rightarrow> 'k \<Rightarrow> 'v \<Rightarrow> ('k, 'v) dict" where
  "dict_set [] k v = [(k, v)]"
| "dict_set ((k', v') # d) k v = (if k' = k then (k, v) # d else (k', v') # dict_set d k v)"

definition dict_get :: "('k, 'v) dict \<Rightarrow> 'k \<Rightarrow> 'v option" where
  "dict_get d k = map_of d k"

definition keys :: "('k, 'v) dict \<Rightarrow> 'k list" where
  "keys d = map fst d"

text \<open>
  The collected data: table-1 name, then table-2 name, then table-3 name, to the value.
\<close>

type_synonym dataset = "(string, (string, (string, int) dict) dict) dict"

text \<open>
  A pandas DataFrame whose index has two levels, as far as this program uses one: the row
  labels, the column labels, and the cells row by row. \<open>None\<close> is NaN. A cell value is
  kept as the integer it stands for (a float64 holds every integer up to \<open>2 ^ 53\<close>
  exactly).
\<close>

record DataFrame =
  index :: "(string \<times> string) list"
  columns :: "string list"
  cells :: "int option list list"

text \<open>pandas \<^verbatim>\<open>unique\<close>: the distinct values in the order of their first appearance.\<close>

definition unique :: "'a list \<Rightarrow> 'a list" where
  "unique xs = rev (remdups (rev xs))"

text \<open>
  Lines 465 to 468: one frame per table-1 key, its rows the table-2 keys and its columns
  the table-3 keys, and all frames stacked under their table-1 key. A cell is the value
  collected for its row under its column, NaN where the row has no such column. The
  columns are those of all frames in the order in which they first appear.
  \<^verbatim>\<open>pd.concat\<close> of no frame at all raises ValueError.
\<close>

definition frame_columns :: "dataset \<Rightarrow> string list" where
  "frame_columns data = unique (concat (map (\<lambda>(k1, v). concat (map (\<lambda>(k2, t3). keys t3) v)) data))"

definition concat_frames :: "dataset \<Rightarrow> exn + DataFrame" where
  "concat_frames data =
     (if data = [] then Inl ValueError
      else Inr \<lparr>index = concat (map (\<lambda>(k1, v). map (\<lambda>(k2, t3). (k1, k2)) v) data),
                columns = frame_columns data,
                cells = concat (map (\<lambda>(k1, v).
                          map (\<lambda>(k2, t3). map (dict_get t3) (frame_columns data)) v) data)\<rparr>)"

section \<open>The page and the browser\<close>

text \<open>
  The page as the program meets it. The table locator finds \<open>n_tables\<close> table elements,
  the first three of them the three linked tables. Table 1 is fixed; table 2 shows the rows that belong to
  the table-1 row element clicked last, table 3 those that belong to the table-1 and table-2
  row elements clicked last. The axis menus are the elements the menu locator finds, each
  with its option elements and their texts. Whether a click call raises is the page's
  doing and not the program's: \<open>click_result k\<close> is what the click call number \<open>k\<close> of
  the run meets, \<open>None\<close> when it succeeds, and else the browser driver's error: a stale
  element reference, a timeout (the wait for the anchor of a link row), or any other. \<open>writable f\<close> says whether a file of the name
  \<open>f\<close> can be opened for writing in the working directory.
\<close>

datatype selenium_error = Stale | Timeout | Other

fun raised :: "selenium_error \<Rightarrow> exn" where
  "raised Stale = StaleElementReferenceException"
| "raised Timeout = TimeoutException"
| "raised Other = WebDriverException"

record 'e site =
  n_tables :: nat
  table1 :: "'e table_dom"
  table2 :: "'e \<Rightarrow> 'e table_dom"
  table3 :: "'e \<Rightarrow> 'e \<Rightarrow> 'e table_dom"
  menu_elements :: "'e list"
  option_elements :: "'e \<Rightarrow> ('e \<times> string) list"
  click_result :: "nat \<Rightarrow> selenium_error option"
  writable :: "string \<Rightarrow> bool"

text \<open>
  What the run changes: the click calls issued so far, in order, each with the element it
  was issued on, the dump files in the working directory, and the frame written to the
  output file.
\<close>

record 'e browser =
  clicks :: "'e list"
  files :: "(string, dataset) dict"
  saved :: "DataFrame option"

definition click :: "'e site \<Rightarrow> 'e browser \<Rightarrow> 'e \<Rightarrow> exn option \<times> 'e browser" where
  "click st b e =
     (map_option raised (click_result st (length (clicks b))), b\<lparr>clicks := clicks b @ [e]\<rparr>)"

text \<open>
  \<^verbatim>\<open>Row.click\<close> (lines 155 to 165): the click goes to the row element of an object table
  and to the anchor found under the row element of a link table. Either way it is one click
  call of the run, issued for the row.
\<close>

definition Row_click :: "'e site \<Rightarrow> 'e browser \<Rightarrow> 'e Row \<Rightarrow> exn option \<times> 'e browser" where
  "Row_click st b r =
     (case table_type r of Object \<Rightarrow> click st b (web_element r) | Link \<Rightarrow> click st b (web_element r))"

text \<open>
  \<^verbatim>\<open>self.tables[k].rows(recalculate=True, ...)\<close>: the engine holds one Table per table
  element found when it started, so \<^verbatim>\<open>self.tables[k]\<close> raises IndexError when there are
  not that many; the rows are then calculated on the table element as the page shows it
  now, \<open>tbl\<close>.
\<close>

definition Table_rows :: "'e site \<Rightarrow> table_type \<Rightarrow> nat \<Rightarrow> 'e table_dom \<Rightarrow> exn + 'e Row list" where
  "Table_rows st tt k tbl = (if k < n_tables st then calculate_rows tt tbl else Inl IndexError)"

section \<open>create_dataset and the retry loop\<close>

text \<open>
  Writing the dump (\<^verbatim>\<open>open(dump_file, 'w')\<close> and \<^verbatim>\<open>json.dump\<close>) and reading it back
  (\<^verbatim>\<open>open(dump_file, 'r')\<close>, \<^verbatim>\<open>json.load\<close>, then \<^verbatim>\<open>os.remove\<close>, whose failure is only
  reported). The data has string keys and integer values, which JSON keeps as they are.
\<close>

definition write_dump :: "'e site \<Rightarrow> 'e browser \<Rightarrow> string \<Rightarrow> dataset \<Rightarrow> exn + 'e browser" where
  "write_dump st b dump_file data =
     (if writable st dump_file then Inr (b\<lparr>files := dict_set (files b) dump_file data\<rparr>)
      else Inl OSError)"

definition load_dump :: "'e browser \<Rightarrow> string option \<Rightarrow> exn + (dataset \<times> 'e browser)" where
  "load_dump b dump_file =
     (case dump_file of
        None \<Rightarrow> Inr ([], b)
      | Some f \<Rightarrow>
          (case dict_get (files b) f of
             None \<Rightarrow> Inl OSError
           | Some data \<Rightarrow> Inr (data, b\<lparr>files := filter (\<lambda>(k, v). k \<noteq> f) (files b)\<rparr>)))"

text \<open>The names of the dump files (lines 422 and 449).\<close>

definition dump_file_T1 :: "string \<Rightarrow> string" where
  "dump_file_T1 t1_name = ''data-up-to_T1-'' @ t1_name @ ''.json''"

definition dump_file_T2 :: "string \<Rightarrow> string \<Rightarrow> string" where
  "dump_file_T2 t1_name t2_name = ''data-up-to_T1-'' @ t1_name @ ''_T2-'' @ t2_name @ ''.json''"

text \<open>The dict comprehension of lines 459 to 461: a later row of the same name wins.\<close>

definition dict_of_rows :: "'e Row list \<Rightarrow> (string, int) dict" where
  "dict_of_rows rows = fold (\<lambda>r d. dict_set d (name r) (value r)) rows []"

text \<open>\<^verbatim>\<open>data[k1][k2] = v\<close>: the outer lookup raises KeyError for a missing key.\<close>

definition set_nested :: "dataset \<Rightarrow> string \<Rightarrow> string \<Rightarrow> (string, int) dict \<Rightarrow> exn + dataset" where
  "set_nested data k1 k2 v =
     (case dict_get data k1 of
        None \<Rightarrow> Inl KeyError
      | Some inner \<Rightarrow> Inr (dict_set data k1 (dict_set inner k2 v)))"

text \<open>\<^verbatim>\<open>rows[n:]\<close> when \<open>n\<close> is not \<^verbatim>\<open>None\<close> (lines 399, 400 and 432, 433).\<close>

definition skip_rows :: "nat option \<Rightarrow> 'a list \<Rightarrow> 'a list" where
  "skip_rows current rows = (case current of None \<Rightarrow> rows | Some n \<Rightarrow> slice_from rows (int n))"

text \<open>
  The loop over the table-2 rows (lines 437 to 461), for the table-1 row \<open>t1_row\<close> met
  at position \<open>i\<close> of the outer loop. The rows come with their positions, as
  \<^verbatim>\<open>enumerate\<close> gives them.
\<close>

fun t2_loop ::
  "'e site \<Rightarrow> table_type \<Rightarrow> 'e Row \<Rightarrow> nat \<Rightarrow> (nat \<times> 'e Row) list \<Rightarrow> dataset \<Rightarrow> 'e browser
     \<Rightarrow> (exn + dataset) \<times> 'e browser" where
  "t2_loop st tt t1_row i [] data b = (Inr data, b)"
| "t2_loop st tt t1_row i ((j, t2_row) # rest) data b =
     (case Row_click st b t2_row of
        (Some StaleElementReferenceException, b1) \<Rightarrow>
          (let dump_file = dump_file_T2 (name t1_row) (name t2_row)
           in case write_dump st b1 dump_file data of
                Inl err \<Rightarrow> (Inl err, b1)
              | Inr b2 \<Rightarrow> (Inl (DatasetException dump_file i (Some j)), b2))
      | (Some err, b1) \<Rightarrow> (Inl err, b1)
      | (None, b1) \<Rightarrow>
          (case Table_rows st tt 2 (table3 st (web_element t1_row) (web_element t2_row)) of
             Inl err \<Rightarrow> (Inl err, b1)
           | Inr t3_rows \<Rightarrow>
               (case set_nested data (name t1_row) (name t2_row) (dict_of_rows t3_rows) of
                  Inl err \<Rightarrow> (Inl err, b1)
                | Inr data' \<Rightarrow> t2_loop st tt t1_row i rest data' b1)))"

text \<open>
  The loop over the table-1 rows (lines 404 to 461). \<open>current_t2_row\<close> is the parameter of
  \<^verbatim>\<open>create_dataset\<close>; the loop reads it for every table-1 row and never assigns it.
\<close>

fun t1_loop ::
  "'e site \<Rightarrow> table_type \<Rightarrow> nat option \<Rightarrow> (nat \<times> 'e Row) list \<Rightarrow> dataset \<Rightarrow> 'e browser
     \<Rightarrow> (exn + dataset) \<times> 'e browser" where
  "t1_loop st tt current_t2_row [] data b = (Inr data, b)"
| "t1_loop st tt current_t2_row ((i, t1_row) # rest) data b =
     (let data0 = (if name t1_row \<notin> set (keys data) then dict_set data (name t1_row) [] else data)
      in case Row_click st b t1_row of
           (Some StaleElementReferenceException, b1) \<Rightarrow>
             (let dump_file = dump_file_T1 (name t1_row)
              in case write_dump st b1 dump_file data0 of
                   Inl err \<Rightarrow> (Inl err, b1)
                 | Inr b2 \<Rightarrow> (Inl (DatasetException dump_file i None), b2))
         | (Some err, b1) \<Rightarrow> (Inl err, b1)
         | (None, b1) \<Rightarrow>
             (case Table_rows st tt 1 (table2 st (web_element t1_row)) of
                Inl err \<Rightarrow> (Inl err, b1)
              | Inr t2_rows \<Rightarrow>
                  (case t2_loop st tt t1_row i (enumerate 0 (skip_rows current_t2_row t2_rows)) data0 b1 of
                     (Inl err, b2) \<Rightarrow> (Inl err, b2)
                   | (Inr data', b2) \<Rightarrow> t1_loop st tt current_t2_row rest data' b2)))"

text \<open>
  \<^verbatim>\<open>create_dataset\<close> (lines 364 to 468). The result is the pair of \<^verbatim>\<open>self.data\<close> and
  \<^verbatim>\<open>self.df\<close>.
\<close>

definition create_dataset ::
  "'e site \<Rightarrow> table_type \<Rightarrow> 'e browser \<Rightarrow> string option \<Rightarrow> nat option \<Rightarrow> nat option
     \<Rightarrow> (exn + dataset \<times> DataFrame) \<times> 'e browser" where
  "create_dataset st tt b dump_file current_t1_row current_t2_row =
     (case load_dump b dump_file of
        Inl err \<Rightarrow> (Inl err, b)
      | Inr (data, b0) \<Rightarrow>
          (case Table_rows st tt 0 (table1 st) of
             Inl err \<Rightarrow> (Inl err, b0)
           | Inr t1_rows \<Rightarrow>
               (case t1_loop st tt current_t2_row (enumerate 0 (skip_rows current_t1_row t1_rows)) data b0 of
                  (Inl err, b1) \<Rightarrow> (Inl err, b1)
                | (Inr data', b1) \<Rightarrow>
                    (case concat_frames data' of
                       Inl err \<Rightarrow> (Inl err, b1)
                     | Inr df \<Rightarrow> (Inr (data', df), b1)))))"

text \<open>
  The loop of lines 344 to 356: \<^verbatim>\<open>create_dataset\<close> is called again, with what the
  exception carries, as long as it raises DatasetException, and any other exception leaves
  the loop. The loop has no bound of its own; \<open>fuel\<close> bounds the number of calls in the
  model, and \<open>None\<close> is a loop that has not ended within it.
\<close>

fun retry_loop ::
  "nat \<Rightarrow> 'e site \<Rightarrow> table_type \<Rightarrow> 'e browser \<Rightarrow> string option \<Rightarrow> nat option \<Rightarrow> nat option
     \<Rightarrow> ((exn + dataset \<times> DataFrame) \<times> 'e browser) option" where
  "retry_loop 0 st tt b dump_file current_t1_row current_t2_row = None"
| "retry_loop (Suc fuel) st tt b dump_file current_t1_row current_t2_row =
     (case create_dataset st tt b dump_file current_t1_row current_t2_row of
        (Inl (DatasetException f i j), b') \<Rightarrow> retry_loop fuel st tt b' (Some f) (Some i) j
      | (Inl err, b') \<Rightarrow> Some (Inl err, b')
      | (Inr r, b') \<Rightarrow> Some (Inr r, b'))"

section \<open>Normalization\<close>

text \<open>Lines 472 to 474: the two levels' unique values and their product.\<close>

definition unique_index1 :: "DataFrame \<Rightarrow> string list" where
  "unique_index1 df = unique (map fst (index df))"

definition unique_index2 :: "DataFrame \<Rightarrow> string list" where
  "unique_index2 df = unique (map snd (index df))"

definition from_product :: "'a list \<Rightarrow> 'b list \<Rightarrow> ('a \<times> 'b) list" where
  "from_product xs ys = concat (map (\<lambda>x. map (\<lambda>y. (x, y)) ys) xs)"

text \<open>
  \<^verbatim>\<open>df.reindex(new_index, axis='index')\<close>: the rows of the new labels, a row of NaN for a
  label the frame does not have. A frame with a repeated row label cannot be reindexed
  (ValueError). \<open>row_of\<close> is the row stored under a label.
\<close>

definition row_of :: "DataFrame \<Rightarrow> string \<times> string \<Rightarrow> int option list option" where
  "row_of df l = map_of (zip (index df) (cells df)) l"

definition reindex :: "DataFrame \<Rightarrow> (string \<times> string) list \<Rightarrow> exn + DataFrame" where
  "reindex df new_index =
     (if \<not> distinct (index df) then Inl ValueError
      else Inr (df\<lparr>index := new_index,
                   cells := map (\<lambda>l. case row_of df l of
                                       Some row \<Rightarrow> row
                                     | None \<Rightarrow> replicate (length (columns df)) None)
                               new_index\<rparr>))"

text \<open>\<^verbatim>\<open>df.fillna(value=0.0)\<close> (line 478).\<close>

definition fill_zero :: "int option \<Rightarrow> int option" where
  "fill_zero c = (case c of None \<Rightarrow> Some 0 | Some x \<Rightarrow> Some x)"

definition fillna :: "DataFrame \<Rightarrow> DataFrame" where
  "fillna df = df\<lparr>cells := map (map fill_zero) (cells df)\<rparr>"

text \<open>
  \<^verbatim>\<open>df.sort_index()\<close> (line 481): the rows in the lexicographic order of their labels,
  strings compared character by character.
\<close>

definition sort_index :: "DataFrame \<Rightarrow> DataFrame" where
  "sort_index df =
     (let rows = sort_key fst (zip (index df) (cells df))
      in df\<lparr>index := map fst rows, cells := map snd rows\<rparr>)"

text \<open>
  The row that reindexing and filling give a label: the frame's row of that label, or a
  row of NaN, with every NaN replaced by 0. (An auxiliary notion for the properties below;
  the program has no such function.)
\<close>

definition filled_row :: "DataFrame \<Rightarrow> string \<times> string \<Rightarrow> int option list" where
  "filled_row df l =
     map fill_zero (case row_of df l of
                      Some row \<Rightarrow> row
                    | None \<Rightarrow> replicate (length (columns df)) None)"

text \<open>Lines 472 to 481 together: the part of \<^verbatim>\<open>clean_dataset\<close> that arranges the rows.\<close>

definition normalize_rows :: "DataFrame \<Rightarrow> exn + DataFrame" where
  "normalize_rows df =
     (case reindex df (from_product (unique_index1 df) (unique_index2 df)) of
        Inl err \<Rightarrow> Inl err
      | Inr df1 \<Rightarrow> Inr (sort_index (fillna df1)))"

text \<open>
  The builtin \<^verbatim>\<open>sorted(iterable, *, key=None, reverse=False)\<close>, called with the keyword
  arguments named in \<open>kwargs\<close>: any keyword but \<^verbatim>\<open>key\<close> and \<^verbatim>\<open>reverse\<close> raises
  TypeError. (The program passes neither of the two, so their effect is not modelled.)
\<close>

definition sorted_builtin :: "string list \<Rightarrow> 'a::linorder list \<Rightarrow> exn + 'a list" where
  "sorted_builtin kwargs xs =
     (if \<exists>k \<in> set kwargs. k \<noteq> ''key'' \<and> k \<noteq> ''reverse'' then Inl TypeError else Inr (sort xs))"

text \<open>
  \<^verbatim>\<open>df['Total'] = df.sum(axis=1)\<close> (line 487): the sum of each row over all columns of the
  frame, NaN skipped, stored in the column \<^verbatim>\<open>Total\<close>: in place when the frame has that
  column already, as a new last column otherwise.
\<close>

definition row_sum :: "int option list \<Rightarrow> int" where
  "row_sum row = sum_list (map (\<lambda>c. case c of None \<Rightarrow> 0 | Some x \<Rightarrow> x) row)"

fun index_of :: "'a list \<Rightarrow> 'a \<Rightarrow> nat option" where
  "index_of [] x = None"
| "index_of (y # ys) x = (if y = x then Some 0 else map_option Suc (index_of ys x))"

definition set_total :: "DataFrame \<Rightarrow> DataFrame" where
  "set_total df =
     (case index_of (columns df) ''Total'' of
        Some i \<Rightarrow> df\<lparr>cells := map (\<lambda>row. row[i := Some (row_sum row)]) (cells df)\<rparr>
      | None \<Rightarrow> df\<lparr>columns := columns df @ [''Total''],
                     cells := map (\<lambda>row. row @ [Some (row_sum row)]) (cells df)\<rparr>)"

text \<open>
  Lines 490 to 492: the float columns become int64 columns. Cell values are integers in
  this model, so only a NaN matters: it has no integer value and the conversion raises
  ValueError.
\<close>

definition astype_int64 :: "DataFrame \<Rightarrow> exn + DataFrame" where
  "astype_int64 df = (if \<exists>row \<in> set (cells df). None \<in> set row then Inl ValueError else Inr df)"

text \<open>
  \<^verbatim>\<open>clean_dataset\<close> (lines 470 to 496). Line 484 evaluates
  \<^verbatim>\<open>sorted(self.df.columns, axis=1)\<close> before it can call \<^verbatim>\<open>reindex\<close> with the result.
  Two library calls stand after that point with arguments whose handling by pandas the
  program does not fix: \<^verbatim>\<open>reindex\<close> of a two-level index by plain column names, and the
  renaming of the index levels (\<^verbatim>\<open>index.rename(name=a, level=i, inplace=True)\<close> for each of
  the axes). Both are parameters of the model, the fields of \<open>library\<close>.
\<close>

record library =
  reindex_names :: "DataFrame \<Rightarrow> string list \<Rightarrow> exn + DataFrame"
  rename_levels :: "string list \<Rightarrow> DataFrame \<Rightarrow> exn + DataFrame"

definition clean_dataset :: "library \<Rightarrow> string list \<Rightarrow> DataFrame \<Rightarrow> exn + DataFrame" where
  "clean_dataset lib axes df =
     (case normalize_rows df of
        Inl err \<Rightarrow> Inl err
      | Inr df1 \<Rightarrow>
          (case sorted_builtin [''axis''] (columns df1) of
             Inl err \<Rightarrow> Inl err
           | Inr cols \<Rightarrow>
               (case reindex_names lib df1 cols of
                  Inl err \<Rightarrow> Inl err
                | Inr df2 \<Rightarrow>
                    (case astype_int64 (set_total df2) of
                       Inl err \<Rightarrow> Inl err
                     | Inr df3 \<Rightarrow> rename_levels lib axes df3))))"

section \<open>Axis menus and the engine\<close>

text \<open>The page types that pass the engine's check of the URL (lines 295 to 301).\<close>

datatype webpage_type = ObjectWhole | LinkWhole | ObjectBroken | LinkBroken

text \<open>\<^verbatim>\<open>'object' in webpage_type\<close> and \<^verbatim>\<open>'link' in webpage_type\<close>.\<close>

definition is_object :: "webpage_type \<Rightarrow> bool" where
  "is_object wt \<longleftrightarrow> wt = ObjectWhole \<or> wt = ObjectBroken"

definition is_link :: "webpage_type \<Rightarrow> bool" where
  "is_link wt \<longleftrightarrow> wt = LinkWhole \<or> wt = LinkBroken"

text \<open>
  An AxisMenu: its clickable element, its page type and its options. An Option is its
  clickable element with its name, the element's text.
\<close>

record 'e AxisMenu =
  clickable_element :: 'e
  webpage_type :: webpage_type
  options :: "('e \<times> string) list"

definition option_names :: "'e AxisMenu \<Rightarrow> string list" where
  "option_names m = map snd (options m)"

text \<open>
  \<^verbatim>\<open>AxisMenu.calculate_options\<close> (lines 194 to 218). On an object page the menu is
  clicked first, which makes its listbox appear, and the options are read from the listbox;
  on a link page the options are read from under the menu element, with no click.
\<close>

definition calculate_options ::
  "'e site \<Rightarrow> 'e browser \<Rightarrow> 'e AxisMenu \<Rightarrow> (exn + 'e AxisMenu) \<times> 'e browser" where
  "calculate_options st b m =
     (if is_object (webpage_type m) then
        (case click st b (clickable_element m) of
           (Some err, b1) \<Rightarrow> (Inl err, b1)
         | (None, b1) \<Rightarrow>
             (case wait_all (option_elements st (clickable_element m)) of
                Inl err \<Rightarrow> (Inl err, b1)
              | Inr os \<Rightarrow> (Inr (m\<lparr>options := os\<rparr>), b1)))
      else if is_link (webpage_type m) then
        (case wait_all (option_elements st (clickable_element m)) of
           Inl err \<Rightarrow> (Inl err, b)
         | Inr os \<Rightarrow> (Inr (m\<lparr>options := os\<rparr>), b))
      else (Inl UnboundLocalError, b))"

text \<open>\<^verbatim>\<open>AxisMenu.__init__\<close> (lines 169 to 192).\<close>

definition AxisMenu_init ::
  "'e site \<Rightarrow> 'e browser \<Rightarrow> webpage_type \<Rightarrow> nat \<Rightarrow> (exn + 'e AxisMenu) \<times> 'e browser" where
  "AxisMenu_init st b wt axis_index =
     (case wait_all (menu_elements st) of
        Inl err \<Rightarrow> (Inl err, b)
      | Inr menus \<Rightarrow>
          (if axis_index < length menus
           then calculate_options st b
                  \<lparr>clickable_element = menus ! axis_index, webpage_type = wt, options = []\<rparr>
           else (Inl IndexError, b)))"

text \<open>
  \<^verbatim>\<open>AxisMenu.calculate_all\<close> (lines 236 to 245): three menus on the whole pages; on the
  broken-out pages the branch only passes and \<^verbatim>\<open>return menus\<close> meets an unbound name.
\<close>

fun init_menus ::
  "'e site \<Rightarrow> 'e browser \<Rightarrow> webpage_type \<Rightarrow> nat list \<Rightarrow> (exn + 'e AxisMenu list) \<times> 'e browser" where
  "init_menus st b wt [] = (Inr [], b)"
| "init_menus st b wt (i # rest) =
     (case AxisMenu_init st b wt i of
        (Inl err, b1) \<Rightarrow> (Inl err, b1)
      | (Inr m, b1) \<Rightarrow>
          (case init_menus st b1 wt rest of
             (Inl err, b2) \<Rightarrow> (Inl err, b2)
           | (Inr ms, b2) \<Rightarrow> (Inr (m # ms), b2)))"

definition AxisMenu_calculate_all ::
  "'e site \<Rightarrow> 'e browser \<Rightarrow> webpage_type \<Rightarrow> (exn + 'e AxisMenu list) \<times> 'e browser" where
  "AxisMenu_calculate_all st b wt =
     (case wt of
        ObjectWhole \<Rightarrow> init_menus st b wt [0, 1, 2]
      | LinkWhole \<Rightarrow> init_menus st b wt [0, 1, 2]
      | ObjectBroken \<Rightarrow> (Inl UnboundLocalError, b)
      | LinkBroken \<Rightarrow> (Inl UnboundLocalError, b))"

text \<open>
  \<^verbatim>\<open>Table.calculate_all\<close> (lines 122 to 129): the wait for the table elements, and the
  table type that all Tables get.
\<close>

definition Table_calculate_all :: "'e site \<Rightarrow> webpage_type \<Rightarrow> exn + table_type" where
  "Table_calculate_all st wt =
     (if n_tables st = 0 then Inl TimeoutException
      else if is_object wt then Inr Object
      else if is_link wt then Inr Link
      else Inl UnboundLocalError)"

text \<open>The check of the axis names (lines 334 to 337).\<close>

fun check_axes :: "'e AxisMenu list \<Rightarrow> string list \<Rightarrow> exn + unit" where
  "check_axes [] axes = Inr ()"
| "check_axes (m # ms) axes =
     (if \<exists>a \<in> set axes. a \<notin> set (option_names m) then Inl ValueError else check_axes ms axes)"

text \<open>\<^verbatim>\<open>AxisMenu.set_to\<close> (lines 223 to 234).\<close>

definition click_option ::
  "'e site \<Rightarrow> 'e browser \<Rightarrow> 'e AxisMenu \<Rightarrow> string \<Rightarrow> (exn + 'e AxisMenu) \<times> 'e browser" where
  "click_option st b m axis_name =
     (case filter (\<lambda>opt. snd opt = axis_name) (options m) of
        [] \<Rightarrow> (Inl IndexError, b)
      | opt # others \<Rightarrow>
          (case click st b (fst opt) of
             (Some err, b1) \<Rightarrow> (Inl err, b1)
           | (None, b1) \<Rightarrow> (Inr m, b1)))"

definition set_to ::
  "'e site \<Rightarrow> 'e browser \<Rightarrow> 'e AxisMenu \<Rightarrow> string \<Rightarrow> (exn + 'e AxisMenu) \<times> 'e browser" where
  "set_to st b m axis_name =
     (if is_object (webpage_type m) then
        (case calculate_options st b m of
           (Inl err, b1) \<Rightarrow> (Inl err, b1)
         | (Inr m1, b1) \<Rightarrow> click_option st b1 m1 axis_name)
      else if is_link (webpage_type m) then
        (case click st b (clickable_element m) of
           (Some err, b1) \<Rightarrow> (Inl err, b1)
         | (None, b1) \<Rightarrow> click_option st b1 m axis_name)
      else click_option st b m axis_name)"

text \<open>Lines 340 and 341: \<^verbatim>\<open>self.menus[i].set_to(a)\<close> for each axis with its position.\<close>

fun set_axes ::
  "'e site \<Rightarrow> 'e browser \<Rightarrow> 'e AxisMenu list \<Rightarrow> (nat \<times> string) list
     \<Rightarrow> (exn + 'e AxisMenu list) \<times> 'e browser" where
  "set_axes st b menus [] = (Inr menus, b)"
| "set_axes st b menus ((i, a) # rest) =
     (if i < length menus then
        (case set_to st b (menus ! i) a of
           (Inl err, b1) \<Rightarrow> (Inl err, b1)
         | (Inr m, b1) \<Rightarrow> set_axes st b1 (menus[i := m]) rest)
      else (Inl IndexError, b))"

text \<open>
  \<^verbatim>\<open>CollationEngine.__init__\<close> from the point where the browser shows the page (lines
  322 to 358): the menus, the tables, the check of the axis names, the selection of the
  axes, the retry loop, \<^verbatim>\<open>clean_dataset\<close> and \<^verbatim>\<open>save_dataset\<close>. \<open>None\<close> is a run whose
  retry loop has not ended within \<open>fuel\<close> calls.
\<close>

definition CollationEngine_init ::
  "nat \<Rightarrow> library \<Rightarrow> 'e site \<Rightarrow> webpage_type \<Rightarrow> string list \<Rightarrow> 'e browser
     \<Rightarrow> ((exn + DataFrame) \<times> 'e browser) option" where
  "CollationEngine_init fuel lib st wt axes b =
     (case AxisMenu_calculate_all st b wt of
        (Inl err, b1) \<Rightarrow> Some (Inl err, b1)
      | (Inr menus, b1) \<Rightarrow>
          (case Table_calculate_all st wt of
             Inl err \<Rightarrow> Some (Inl err, b1)
           | Inr tt \<Rightarrow>
               (case check_axes menus axes of
                  Inl err \<Rightarrow> Some (Inl err, b1)
                | Inr u \<Rightarrow>
                    (case set_axes st b1 menus (enumerate 0 axes) of
                       (Inl err, b2) \<Rightarrow> Some (Inl err, b2)
                     | (Inr menus', b2) \<Rightarrow>
                         (case retry_loop fuel st tt b2 None None None of
                            None \<Rightarrow> None
                          | Some (Inl err, b3) \<Rightarrow> Some (Inl err, b3)
                          | Some (Inr (data, df), b3) \<Rightarrow>
                              (case clean_dataset lib axes df of
                                 Inl err \<Rightarrow> Some (Inl err, b3)
                               | Inr df' \<Rightarrow> Some (Inr df', b3\<lparr>saved := Some df'\<rparr>)))))))"

text \<open>
  The rows of the stacked frame, each with its label, for given columns. (An auxiliary
  notion for the properties below.)
\<close>

definition frame_rows :: "string list \<Rightarrow> dataset \<Rightarrow> ((string \<times> string) \<times> int option list) list" where
  "frame_rows cols data =
     concat (map (\<lambda>(k1, v). map (\<lambda>(k2, t3). ((k1, k2), map (dict_get t3) cols)) v) data)"

text \<open>
  The value collected for a pair of names under a table-3 name, and 0 when none was
  collected. (An auxiliary notion for the properties below.)
\<close>

definition collected :: "dataset \<Rightarrow> string \<Rightarrow> string \<Rightarrow> string \<Rightarrow> int" where
  "collected data k1 k2 c =
     (case dict_get data k1 of
        None \<Rightarrow> 0
      | Some v \<Rightarrow>
          (case dict_get v k2 of
             None \<Rightarrow> 0
           | Some t3 \<Rightarrow> (case dict_get t3 c of None \<Rightarrow> 0 | Some x \<Rightarrow> x)))"

section \<open>Example pages\<close>

text \<open>
  A page with the table-1 rows A and B. Clicking either shows the table-2 rows X and Y, and
  each of the four pairs shows one table-3 row M with a value of its own (1 to 4). The row
  elements are named after their rows. Each of the three axis menus offers the options X,
  Y and Z.
\<close>

definition example_site :: "(nat \<Rightarrow> selenium_error option) \<Rightarrow> string site" where
  "example_site results =
     \<lparr>n_tables = 3,
      table1 = \<lparr>row_elements = [''a'', ''b''], element_text = ''A 10'' @ [CHR 0x0A] @ ''B 5''\<rparr>,
      table2 = (\<lambda>e1. \<lparr>row_elements = [e1 @ ''x'', e1 @ ''y''],
                          element_text = ''X 1'' @ [CHR 0x0A] @ ''Y 2''\<rparr>),
      table3 = (\<lambda>e1 e2. \<lparr>row_elements = [e2 @ ''m''],
                          element_text =
                            (if e2 = ''ax'' then ''M 1'' else if e2 = ''ay'' then ''M 2''
                             else if e2 = ''bx'' then ''M 3'' else ''M 4'')\<rparr>),
      menu_elements = [''m0'', ''m1'', ''m2''],
      option_elements = (\<lambda>e. [(e @ ''-x'', ''X''), (e @ ''-y'', ''Y''), (e @ ''-z'', ''Z'')]),
      click_result = results,
      writable = (\<lambda>f. True)\<rparr>"

text \<open>Click calls that all succeed, that all go stale, and that meet one error.\<close>

definition never_raises :: "nat \<Rightarrow> selenium_error option" where
  "never_raises k = None"

definition always_stale :: "nat \<Rightarrow> selenium_error option" where
  "always_stale k = Some Stale"

definition raises_at :: "nat \<Rightarrow> selenium_error \<Rightarrow> nat \<Rightarrow> selenium_error option" where
  "raises_at n e k = (if k = n then Some e else None)"

definition fresh_browser :: "string browser" where
  "fresh_browser = \<lparr>clicks = [], files = [], saved = None\<rparr>"

text \<open>One possible behaviour of the two library calls that the program never reaches.\<close>

definition example_library :: library where
  "example_library =
     \<lparr>reindex_names = (\<lambda>df cols. Inl TypeError), rename_levels = (\<lambda>axes df. Inl TypeError)\<rparr>"

section \<open>Example datasets\<close>

text \<open>
  A dataset with a gap: January was collected under Y only, February under X only, so the
  pairs (Jan, X) and (Feb, Y) were never visited.
\<close>

definition gap_data :: dataset where
  "gap_data = [(''Jan'', [(''Y'', [(''A'', 3), (''B'', 7)])]), (''Feb'', [(''X'', [(''A'', 1)])])]"

text \<open>A dataset whose table-1 row B showed no table-2 row at all.\<close>

definition empty_row_data :: dataset where
  "empty_row_data = [(''A'', [(''X'', [(''M'', 3)])]), (''B'', [])]"

text \<open>
  A frame in normalized form, one row with the data columns A and B and their Total, and
  the same frame before its Total column is added.
\<close>

definition totalled_frame :: DataFrame where
  "totalled_frame =
     \<lparr>index = [(''Jan'', ''X'')], columns = [''A'', ''B'', ''Total''],
      cells = [[Some 3, Some 7, Some 10]]\<rparr>"

definition untotalled_frame :: DataFrame where
  "untotalled_frame =
     \<lparr>index = [(''Jan'', ''X'')], columns = [''A'', ''B''], cells = [[Some 3, Some 7]]\<rparr>"

(* DEFINITIONS-END *)

section \<open>Properties of the row model\<close>

lemma startswith_iff: "startswith s pat \<longleftrightarrow> (\<exists>b. s = pat @ b)"
  by (induction s pat rule: startswith.induct) auto

lemma contains_iff: "contains pat s \<longleftrightarrow> (\<exists>a b. s = a @ pat @ b)"
proof (induction s)
  case Nil
  then show ?case by auto
next
  case (Cons c cs)
  show ?case
  proof
    assume "contains pat (c # cs)"
    then consider "startswith (c # cs) pat" | "contains pat cs" by auto
    then show "\<exists>a b. c # cs = a @ pat @ b"
    proof cases
      case 1
      then obtain b where "c # cs = pat @ b" by (auto simp: startswith_iff)
      then have "c # cs = [] @ pat @ b" by simp
      then show ?thesis by blast
    next
      case 2
      with Cons.IH obtain a b where "cs = a @ pat @ b" by auto
      then have "c # cs = (c # a) @ pat @ b" by simp
      then show ?thesis by blast
    qed
  next
    assume "\<exists>a b. c # cs = a @ pat @ b"
    then obtain a b where ab: "c # cs = a @ pat @ b" by blast
    show "contains pat (c # cs)"
    proof (cases a)
      case Nil
      with ab have "startswith (c # cs) pat" by (auto simp: startswith_iff)
      then show ?thesis by simp
    next
      case (Cons x a')
      with ab have "cs = a' @ pat @ b" by simp
      with Cons.IH have "contains pat cs" by blast
      then show ?thesis by simp
    qed
  qed
qed

lemma enumerate_skip_filter:
  "map snd (filter (\<lambda>(i, r). i \<notin> set (map fst (filter (\<lambda>(i, r). \<not> P r) (enumerate n xs))))
     (enumerate n xs)) = filter P xs"
proof -
  define S where "S = set (map fst (filter (\<lambda>(i, r). \<not> P r) (enumerate n xs)))"
  have key: "(i \<notin> S) = P r" if ir: "(i, r) \<in> set (enumerate n xs)" for i r
  proof
    assume a: "i \<notin> S"
    show "P r"
    proof (rule ccontr)
      assume "\<not> P r"
      with ir have "(i, r) \<in> set (filter (\<lambda>(i, r). \<not> P r) (enumerate n xs))" by simp
      then have "i \<in> S" unfolding S_def by force
      with a show False by simp
    qed
  next
    assume p: "P r"
    have d: "distinct (map fst (enumerate n xs))" by simp
    show "i \<notin> S"
    proof
      assume "i \<in> S"
      then obtain r' where r': "(i, r') \<in> set (enumerate n xs)" and np: "\<not> P r'"
        unfolding S_def by auto
      from d ir r' have "r = r'" by (meson eq_key_imp_eq_value)
      with p np show False by simp
    qed
  qed
  have "filter (\<lambda>(i, r). i \<notin> S) (enumerate n xs) = filter (\<lambda>(i, r). P r) (enumerate n xs)"
  proof (rule filter_cong [OF refl])
    fix x assume "x \<in> set (enumerate n xs)"
    then have "(fst x \<notin> S) = P (snd x)" using key [of "fst x" "snd x"] by simp
    then show "(case x of (i, r) \<Rightarrow> i \<notin> S) = (case x of (i, r) \<Rightarrow> P r)"
      by (simp add: case_prod_unfold)
  qed
  moreover have "map snd (filter (\<lambda>(i, r). P r) (enumerate n xs)) = filter P xs"
  proof -
    have "filter P (map snd (enumerate n xs)) = map snd (filter (P \<circ> snd) (enumerate n xs))"
      by (rule filter_map)
    moreover have "(P \<circ> snd) = (\<lambda>(i :: nat, r). P r)" by auto
    ultimately show ?thesis by simp
  qed
  ultimately show ?thesis unfolding S_def by simp
qed


lemma rsplit1_no_sep: "sep \<notin> set s \<Longrightarrow> rsplit1 sep s = [s]"
  by (simp add: rsplit1_def)

lemma takeWhile_to_sep: "sep \<notin> set v \<Longrightarrow> takeWhile (\<lambda>c. c \<noteq> sep) (v @ sep # n) = v"
  by (induction v) auto

lemma dropWhile_to_sep: "sep \<notin> set v \<Longrightarrow> dropWhile (\<lambda>c. c \<noteq> sep) (v @ sep # n) = sep # n"
  by (induction v) auto

lemma rsplit1_append: "sep \<notin> set v \<Longrightarrow> rsplit1 sep (n @ sep # v) = [n, v]"
  by (simp add: rsplit1_def takeWhile_to_sep dropWhile_to_sep)

lemma split_last_sep: "sep \<in> set s \<Longrightarrow> \<exists>n v. s = n @ sep # v \<and> sep \<notin> set v"
  using split_list_last by fastforce

lemma unpack2_rsplit1:
  "unpack2 (rsplit1 sep s) = Inl ValueError \<longleftrightarrow> sep \<notin> set s"
  by (auto simp: rsplit1_def)

lemma text_rows_simp: "text_rows txt = filter is_meaningful (split (CHR 0x0A) txt)"
  by (simp only: text_rows_def text_indices_to_skip_def Let_def enumerate_skip_filter)

lemma py_int_error: "py_int s = Inl err \<Longrightarrow> err = ValueError"
  by (auto simp: py_int_def split: list.splits option.splits if_splits)

lemma unpack2_error: "unpack2 xs = Inl err \<Longrightarrow> err = ValueError"
  by (cases xs rule: unpack2.cases) auto

lemma Row_init_error: "Row_init e t tt = Inl err \<Longrightarrow> err = ValueError"
  by (auto simp: Row_init_def split: sum.splits dest: py_int_error unpack2_error)

lemma Row_init_append:
  "CHR '' '' \<notin> set v \<Longrightarrow>
   Row_init e (n @ CHR '' '' # v) tt =
     (case py_int (replace_empty CHR '','' v) of
        Inl err \<Rightarrow> Inl err
      | Inr i \<Rightarrow> Inr \<lparr>web_element = e, table_type = tt, name = n, value = i\<rparr>)"
  by (simp add: Row_init_def rsplit1_append)

lemma Row_init_no_space: "CHR '' '' \<notin> set t \<Longrightarrow> Row_init e t tt = Inl ValueError"
  by (simp add: Row_init_def rsplit1_no_sep)

lemma split_unique:
  fixes sep :: char
  assumes "n @ sep # v = n' @ sep # v'" and "sep \<notin> set v" and "sep \<notin> set v'"
  shows "n = n' \<and> v = v'"
proof -
  have "rsplit1 sep (n @ sep # v) = [n, v]" using assms(2) by (rule rsplit1_append)
  moreover have "rsplit1 sep (n' @ sep # v') = [n', v']" using assms(3) by (rule rsplit1_append)
  ultimately have "[n, v] = [n', v']" by (simp only: assms(1))
  then show ?thesis by simp
qed

lemma Row_init_fails_iff:
  "Row_init e t tt = Inl ValueError \<longleftrightarrow>
     (CHR '' '' \<notin> set t \<or>
      (\<exists>n v. t = n @ CHR '' '' # v \<and> CHR '' '' \<notin> set v \<and>
         py_int (replace_empty CHR '','' v) = Inl ValueError))"
  (is "?L \<longleftrightarrow> ?A \<or> ?B")
proof (cases "CHR '' '' \<in> set t")
  case False
  then show ?thesis by (simp add: Row_init_no_space)
next
  case True
  from split_last_sep [OF True]
  obtain n v where t: "t = n @ CHR '' '' # v" and v: "CHR '' '' \<notin> set v"
    by (elim exE conjE)
  have row: "?L \<longleftrightarrow> py_int (replace_empty CHR '','' v) = Inl ValueError"
    unfolding t Row_init_append [OF v]
    by (cases "py_int (replace_empty CHR '','' v)") simp_all
  have "?B \<longleftrightarrow> py_int (replace_empty CHR '','' v) = Inl ValueError"
  proof
    assume ?B
    then obtain n' v' where t': "t = n' @ CHR '' '' # v'" and v': "CHR '' '' \<notin> set v'"
      and e: "py_int (replace_empty CHR '','' v') = Inl ValueError"
      by (elim exE conjE)
    from t [symmetric] t' have "n @ CHR '' '' # v = n' @ CHR '' '' # v'" by (rule trans)
    from split_unique [OF this v v'] have "v = v'" by (rule conjunct2)
    with e show "py_int (replace_empty CHR '','' v) = Inl ValueError" by (simp only:)
  next
    assume "py_int (replace_empty CHR '','' v) = Inl ValueError"
    with t v show ?B by (intro exI conjI)
  qed
  with row True show ?thesis by (simp only: not_True_eq_False simp_thms)
qed

lemma Row_init_fails_any_element:
  "Row_init e t tt = Inl err \<Longrightarrow> Row_init e' t tt' = Inl ValueError"
  by (auto simp: Row_init_def split: sum.splits dest: py_int_error unpack2_error)

lemma make_rows_error: "make_rows tt ps = Inl err \<Longrightarrow> err = ValueError"
  by (induction ps arbitrary: err) (auto split: sum.splits dest: Row_init_error)

lemma make_rows_fails:
  "(e, t) \<in> set ps \<Longrightarrow> Row_init e t tt = Inl err \<Longrightarrow> make_rows tt ps = Inl ValueError"
proof (induction ps)
  case Nil
  then show ?case by simp
next
  case (Cons p ps)
  obtain e0 t0 where p: "p = (e0, t0)" by (cases p)
  show ?case
  proof (cases "Row_init e0 t0 tt")
    case (Inl a)
    then show ?thesis using p by (simp add: Row_init_error)
  next
    case (Inr r)
    with Cons.prems p have "(e, t) \<in> set ps" by auto
    then have "make_rows tt ps = Inl ValueError" using Cons.IH Cons.prems(2) by simp
    with Inr p show ?thesis by simp
  qed
qed

lemma make_rows_ok:
  "make_rows tt ps = Inr rs \<Longrightarrow> list_all2 (\<lambda>(e, t) r. Row_init e t tt = Inr r) ps rs"
  by (induction ps arbitrary: rs) (auto split: sum.splits)

lemma paired_enough_elements:
  "length rows \<le> length elems \<Longrightarrow>
     paired elems rows = zip (drop (length elems - length rows) elems) rows"
  by (simp add: paired_def slice_from_def Let_def nat_diff_distrib')

lemma paired_snd: "length rows \<le> length elems \<Longrightarrow> map snd (paired elems rows) = rows"
  by (simp add: paired_enough_elements)

lemma paired_texts: "(e, t) \<in> set (paired elems rows) \<Longrightarrow> t \<in> set rows"
  by (auto simp: paired_def Let_def dest: set_zip_rightD)

lemma is_meaningful_iff:
  "is_meaningful t \<longleftrightarrow>
     t \<noteq> [] \<and> (\<nexists>a b. t = a @ ''All'' @ b) \<and> (\<nexists>a b. t = a @ ''Total'' @ b)"
  by (simp only: is_meaningful_def contains_iff)

lemma example_text_rows:
  "text_rows (''All 100'' @ [CHR 0x0A] @ ''Total 50'' @ [CHR 0x0A] @ ''Mexico 1,234'') = [''Mexico 1,234'']"
  by (simp add: text_rows_simp is_meaningful_def)

lemma example_py_int: "py_int (replace_empty CHR '','' ''1,234'') = Inr 1234"
  by (simp add: py_int_def replace_empty_def strip_def int_space_def isspace_def parse_unsigned_def digit_val_def)

lemma example_Row: "Row_init e ''Mexico 1,234'' tt = Inr \<lparr>web_element = e, table_type = tt, name = ''Mexico'', value = 1234\<rparr>"
proof -
  have "CHR '' '' \<notin> set ''1,234''" by simp
  from Row_init_append [OF this, of e "''Mexico''" tt] show ?thesis
    by (simp add: example_py_int)
qed

lemma paired_single:
  "es \<noteq> [] \<Longrightarrow> paired es [t] = [(last es, t)]"
proof -
  assume es: "es \<noteq> []"
  then have len: "length [t] \<le> length es" by (cases es) simp_all
  from es obtain xs x where "es = xs @ [x]" by (cases es rule: rev_cases) simp_all
  then have "drop (length es - 1) es = [last es]" by simp
  with paired_enough_elements [OF len] show ?thesis by simp
qed

lemma example_calculate_rows:
  "es \<noteq> [] \<Longrightarrow>
   calculate_rows tt \<lparr>row_elements = es,
      element_text = ''All 100'' @ [CHR 0x0A] @ ''Total 50'' @ [CHR 0x0A] @ ''Mexico 1,234''\<rparr>
   = Inr [\<lparr>web_element = last es, table_type = tt, name = ''Mexico'', value = 1234\<rparr>]"
  by (simp add: calculate_rows_def wait_all_def text_rows_simp is_meaningful_def paired_single
      example_Row)

lemma make_rows_from_pairs:
  "make_rows tt ps = Inr rs \<Longrightarrow> r \<in> set rs \<Longrightarrow>
     \<exists>t. (web_element r, t) \<in> set ps \<and> Row_init (web_element r) t tt = Inr r"
proof (induction ps arbitrary: rs)
  case Nil
  then show ?case by simp
next
  case (Cons p ps)
  obtain e0 t0 where p: "p = (e0, t0)" by (cases p)
  from Cons.prems(1) p obtain r0 rs0 where r0: "Row_init e0 t0 tt = Inr r0"
    and rs0: "make_rows tt ps = Inr rs0" and rs: "rs = r0 # rs0"
    by (auto split: sum.splits)
  from r0 have e0: "web_element r0 = e0" by (auto simp: Row_init_def split: sum.splits)
  from Cons.prems(2) rs consider "r = r0" | "r \<in> set rs0" by auto
  then show ?case
  proof cases
    case 1
    with r0 e0 p show ?thesis by auto
  next
    case 2
    from Cons.IH [OF rs0 2] show ?thesis by auto
  qed
qed

lemma calculate_rows_from_lines:
  assumes "calculate_rows tt tbl = Inr rs" and "r \<in> set rs"
  shows "\<exists>t \<in> set (split (CHR 0x0A) (element_text tbl)).
           is_meaningful t \<and> Row_init (web_element r) t tt = Inr r"
proof -
  from assms(1) have "make_rows tt (paired (row_elements tbl) (text_rows (element_text tbl))) = Inr rs"
    by (simp add: calculate_rows_def wait_all_def split: if_splits)
  from make_rows_from_pairs [OF this assms(2)] obtain t
    where t: "(web_element r, t) \<in> set (paired (row_elements tbl) (text_rows (element_text tbl)))"
      and r: "Row_init (web_element r) t tt = Inr r" by (elim exE conjE)
  from paired_texts [OF t] have "t \<in> set (filter is_meaningful (split (CHR 0x0A) (element_text tbl)))"
    by (simp only: text_rows_simp)
  then have "t \<in> set (split (CHR 0x0A) (element_text tbl))" "is_meaningful t" by simp_all
  with r show ?thesis by (intro bexI [of _ t] conjI)
qed


lemma paired_no_elements: "paired [] rows = []"
  by (simp add: paired_def slice_from_def Let_def)

lemma paired_elements_nonempty: "(e, t) \<in> set (paired elems rows) \<Longrightarrow> elems \<noteq> []"
  by (cases elems) (simp_all add: paired_no_elements)

section \<open>Row filtering and parsing (C7)\<close>

text \<open>
  C7, the claim as stated, at a kept line whose name and value are separated by two spaces:
  \<open>Row_init\<close> splits at the last single space, so the name keeps a trailing space,
  while a split at the last whitespace run gives the name without it.
\<close>

theorem last_whitespace_run_counterexample:
  "is_meaningful ''Mexico  1,234'' \<and>
   Row_init (0::nat) ''Mexico  1,234'' Object
     = Inr \<lparr>web_element = 0, table_type = Object, name = ''Mexico '', value = 1234\<rparr> \<and>
   spec_split_last_whitespace_run ''Mexico  1,234'' = (''Mexico'', ''1,234'')"
  by (simp add: is_meaningful_def Row_init_def rsplit1_def py_int_def replace_empty_def strip_def
      int_space_def isspace_def parse_unsigned_def digit_val_def spec_split_last_whitespace_run_def)

text \<open>
  C7, amended. For the raw read "All 100", "Total 50", "Mexico 1,234" (one line each) and any
  non-empty list of row elements, the row model is exactly one Row, named "Mexico" with value
  1234. Every Row of a model is built from a meaningful line of the table's text, a line
  being meaningful when it is not empty and contains neither "All" nor "Total". A kept line
  is parsed by splitting it at its last space character: the name is what stands before that
  space, the value is the integer read from what stands after it with the commas removed.
\<close>

theorem row_filtering_and_parsing:
  "(es \<noteq> [] \<longrightarrow>
      calculate_rows tt \<lparr>row_elements = es,
        element_text = ''All 100'' @ [CHR 0x0A] @ ''Total 50'' @ [CHR 0x0A] @ ''Mexico 1,234''\<rparr>
      = Inr [\<lparr>web_element = last es, table_type = tt, name = ''Mexico'', value = 1234\<rparr>]) \<and>
   (calculate_rows tt tbl = Inr rs \<longrightarrow> r \<in> set rs \<longrightarrow>
      (\<exists>l. l \<in> set (split (CHR 0x0A) (element_text tbl)) \<and> is_meaningful l \<and>
           Row_init (web_element r) l tt = Inr r)) \<and>
   (is_meaningful t \<longleftrightarrow>
      t \<noteq> [] \<and> (\<nexists>a b. t = a @ ''All'' @ b) \<and> (\<nexists>a b. t = a @ ''Total'' @ b)) \<and>
   (CHR '' '' \<notin> set v \<longrightarrow> py_int (replace_empty CHR '','' v) = Inr k \<longrightarrow>
      Row_init e (n @ CHR '' '' # v) tt
        = Inr \<lparr>web_element = e, table_type = tt, name = n, value = k\<rparr>)"
proof (intro conjI impI)
  assume "es \<noteq> []"
  then show "calculate_rows tt \<lparr>row_elements = es,
        element_text = ''All 100'' @ [CHR 0x0A] @ ''Total 50'' @ [CHR 0x0A] @ ''Mexico 1,234''\<rparr>
      = Inr [\<lparr>web_element = last es, table_type = tt, name = ''Mexico'', value = 1234\<rparr>]"
    by (rule example_calculate_rows)
next
  assume "calculate_rows tt tbl = Inr rs" and "r \<in> set rs"
  from calculate_rows_from_lines [OF this]
  show "\<exists>l. l \<in> set (split (CHR 0x0A) (element_text tbl)) \<and> is_meaningful l \<and>
           Row_init (web_element r) l tt = Inr r"
    by (simp only: Bex_def)
next
  show "is_meaningful t \<longleftrightarrow>
      t \<noteq> [] \<and> (\<nexists>a b. t = a @ ''All'' @ b) \<and> (\<nexists>a b. t = a @ ''Total'' @ b)"
    by (rule is_meaningful_iff)
next
  assume "CHR '' '' \<notin> set v" and "py_int (replace_empty CHR '','' v) = Inr k"
  then show "Row_init e (n @ CHR '' '' # v) tt
        = Inr \<lparr>web_element = e, table_type = tt, name = n, value = k\<rparr>"
    by (simp add: Row_init_append)
qed

text \<open>The hypotheses of C7's theorem hold together on the example read.\<close>

theorem row_filtering_and_parsing_witness:
  "[1, 2, 3 :: nat] \<noteq> [] \<and>
   calculate_rows Object \<lparr>row_elements = [1, 2, 3 :: nat],
        element_text = ''All 100'' @ [CHR 0x0A] @ ''Total 50'' @ [CHR 0x0A] @ ''Mexico 1,234''\<rparr>
      = Inr [\<lparr>web_element = 3, table_type = Object, name = ''Mexico'', value = 1234\<rparr>] \<and>
   is_meaningful ''Mexico 1,234'' \<and>
   CHR '' '' \<notin> set ''1,234'' \<and>
   py_int (replace_empty CHR '','' ''1,234'') = Inr 1234 \<and>
   Row_init (3::nat) (''Mexico'' @ CHR '' '' # ''1,234'') Object
     = Inr \<lparr>web_element = 3, table_type = Object, name = ''Mexico'', value = 1234\<rparr>"
  using row_filtering_and_parsing [where es = "[1, 2, 3 :: nat]" and tt = Object
      and v = "''1,234''" and k = 1234 and n = "''Mexico''" and e = "3::nat"
      and t = "''Mexico 1,234''"
      and tbl = "\<lparr>row_elements = [1, 2, 3 :: nat],
        element_text = ''All 100'' @ [CHR 0x0A] @ ''Total 50'' @ [CHR 0x0A] @ ''Mexico 1,234''\<rparr>"
      and rs = "[\<lparr>web_element = 3, table_type = Object, name = ''Mexico'', value = 1234\<rparr>]"
      and r = "\<lparr>web_element = 3, table_type = Object, name = ''Mexico'', value = 1234\<rparr>"]
  by (simp add: example_py_int is_meaningful_def)

section \<open>Row construction is partial (C10)\<close>

text \<open>
  C10, the claim as stated, at a table with one row element and two meaningful lines: the
  second line has no space, so no Row can be built from it, yet the row computation returns
  one Row and the line is skipped, because \<^verbatim>\<open>zip\<close> pairs only the first line with an element.
\<close>

theorem unpaired_line_counterexample:
  "text_rows (''Mexico 1'' @ [CHR 0x0A] @ ''bad'') = [''Mexico 1'', ''bad''] \<and>
   Row_init (1::nat) ''bad'' Object = Inl ValueError \<and>
   calculate_rows Object \<lparr>row_elements = [1::nat],
        element_text = ''Mexico 1'' @ [CHR 0x0A] @ ''bad''\<rparr>
     = Inr [\<lparr>web_element = 1, table_type = Object, name = ''Mexico'', value = 1\<rparr>]"
  by (simp add: text_rows_simp is_meaningful_def calculate_rows_def wait_all_def paired_def
      slice_from_def Row_init_def rsplit1_def py_int_def replace_empty_def strip_def
      int_space_def isspace_def parse_unsigned_def digit_val_def)

text \<open>
  C10, amended. Building a Row from a line raises ValueError exactly when the line has no
  space character or the text after its last space, commas removed, is not an integer
  literal. The row computation of the whole table then raises ValueError whenever such a line
  is one of the lines paired with a row element, which is every meaningful line when the
  table has at least as many row elements as meaningful lines.
\<close>

theorem row_construction_partial:
  "(Row_init e t tt = Inl ValueError \<longleftrightarrow>
      (CHR '' '' \<notin> set t \<or>
       (\<exists>n v. t = n @ CHR '' '' # v \<and> CHR '' '' \<notin> set v \<and>
          py_int (replace_empty CHR '','' v) = Inl ValueError))) \<and>
   ((e', t) \<in> set (paired (row_elements tbl) (text_rows (element_text tbl))) \<longrightarrow>
      Row_init e t tt = Inl ValueError \<longrightarrow> calculate_rows tt tbl = Inl ValueError) \<and>
   (length (text_rows (element_text tbl)) \<le> length (row_elements tbl) \<longrightarrow>
      t \<in> set (text_rows (element_text tbl)) \<longrightarrow>
      Row_init e t tt = Inl ValueError \<longrightarrow> calculate_rows tt tbl = Inl ValueError)"
proof (intro conjI impI)
  show "Row_init e t tt = Inl ValueError \<longleftrightarrow>
      (CHR '' '' \<notin> set t \<or>
       (\<exists>n v. t = n @ CHR '' '' # v \<and> CHR '' '' \<notin> set v \<and>
          py_int (replace_empty CHR '','' v) = Inl ValueError))"
    by (rule Row_init_fails_iff)
next
  assume p: "(e', t) \<in> set (paired (row_elements tbl) (text_rows (element_text tbl)))"
    and f: "Row_init e t tt = Inl ValueError"
  from p have ne: "row_elements tbl \<noteq> []" by (rule paired_elements_nonempty)
  from f have "Row_init e' t tt = Inl ValueError" by (rule Row_init_fails_any_element)
  from make_rows_fails [OF p this] ne show "calculate_rows tt tbl = Inl ValueError"
    by (simp add: calculate_rows_def wait_all_def)
next
  assume len: "length (text_rows (element_text tbl)) \<le> length (row_elements tbl)"
    and t: "t \<in> set (text_rows (element_text tbl))"
    and f: "Row_init e t tt = Inl ValueError"
  from t have "t \<in> set (map snd (paired (row_elements tbl) (text_rows (element_text tbl))))"
    by (simp only: paired_snd [OF len])
  then obtain e' where p: "(e', t) \<in> set (paired (row_elements tbl) (text_rows (element_text tbl)))"
    by auto
  then have ne: "row_elements tbl \<noteq> []" by (rule paired_elements_nonempty)
  from f have "Row_init e' t tt = Inl ValueError" by (rule Row_init_fails_any_element)
  from make_rows_fails [OF p this] ne show "calculate_rows tt tbl = Inl ValueError"
    by (simp add: calculate_rows_def wait_all_def)
qed

text \<open>The hypotheses of C10's theorem hold together on a table of two lines and two elements.\<close>

theorem row_construction_partial_witness:
  "Row_init (2::nat) ''bad'' Object = Inl ValueError \<and>
   CHR '' '' \<notin> set ''bad'' \<and>
   (2::nat, ''bad'') \<in> set (paired [1, 2] (text_rows (''Mexico 1'' @ [CHR 0x0A] @ ''bad''))) \<and>
   length (text_rows (''Mexico 1'' @ [CHR 0x0A] @ ''bad'')) \<le> length [1, 2 :: nat] \<and>
   ''bad'' \<in> set (text_rows (''Mexico 1'' @ [CHR 0x0A] @ ''bad'')) \<and>
   calculate_rows Object \<lparr>row_elements = [1, 2 :: nat],
        element_text = ''Mexico 1'' @ [CHR 0x0A] @ ''bad''\<rparr> = Inl ValueError"
  using row_construction_partial [where e = "2::nat" and e' = "2::nat" and t = "''bad''"
      and tt = Object
      and tbl = "\<lparr>row_elements = [1, 2 :: nat],
        element_text = ''Mexico 1'' @ [CHR 0x0A] @ ''bad''\<rparr>"]
  by (simp add: text_rows_simp is_meaningful_def paired_def slice_from_def)

section \<open>Properties of the traversal and of the retry loop\<close>

lemma Row_click_eq: "Row_click st b r = click st b (web_element r)"
  by (cases "table_type r") (simp_all add: Row_click_def)

lemma raised_not_DatasetException: "raised e \<noteq> DatasetException f i j"
  by (cases e) simp_all

lemma raised_Stale_iff: "raised e = StaleElementReferenceException \<longleftrightarrow> e = Stale"
  by (cases e) simp_all

lemma wait_all_error: "wait_all xs = Inl err \<Longrightarrow> err = TimeoutException"
  by (simp add: wait_all_def split: if_splits)

lemma calculate_rows_error:
  "calculate_rows tt tbl = Inl err \<Longrightarrow> err = TimeoutException \<or> err = ValueError"
  by (auto simp: calculate_rows_def split: sum.splits dest: wait_all_error make_rows_error)

lemma Table_rows_error:
  "Table_rows st tt k tbl = Inl err \<Longrightarrow>
     err = TimeoutException \<or> err = ValueError \<or> err = IndexError"
  by (auto simp: Table_rows_def split: if_splits dest: calculate_rows_error)

lemma set_nested_error: "set_nested data k1 k2 v = Inl err \<Longrightarrow> err = KeyError"
  by (simp add: set_nested_def split: option.splits)

lemma write_dump_clicks: "write_dump st b f data = Inr b' \<Longrightarrow> clicks b' = clicks b"
  by (auto simp: write_dump_def split: if_splits)

lemma write_dump_error: "write_dump st b f data = Inl err \<Longrightarrow> err = OSError"
  by (simp add: write_dump_def split: if_splits)

lemma t2_loop_clicks_mono:
  "t2_loop st tt r1 i rows data b = (res, b') \<Longrightarrow> length (clicks b) \<le> length (clicks b')"
proof (induction rows arbitrary: data b)
  case Nil
  then show ?case by simp
next
  case (Cons p rest)
  obtain j t2_row where p: "p = (j, t2_row)" by (cases p)
  from Cons.prems show ?case unfolding p
    by (auto simp: Row_click_eq click_def Let_def write_dump_def
        split: option.splits exn.splits sum.splits if_splits dest!: Cons.IH)
qed

lemma t2_loop_DatasetException:
  "t2_loop st tt r1 i rows data b = (Inl (DatasetException f i' j), b') \<Longrightarrow>
     length (clicks b) < length (clicks b') \<and>
     click_result st (length (clicks b') - 1) = Some Stale"
proof (induction rows arbitrary: data b)
  case Nil
  then show ?case by simp
next
  case (Cons p rest)
  obtain j0 t2_row where p: "p = (j0, t2_row)" by (cases p)
  from Cons.prems show ?case unfolding p
    by (auto simp: Row_click_eq click_def Let_def write_dump_def raised_Stale_iff
        raised_not_DatasetException
        split: option.splits exn.splits sum.splits if_splits
        dest!: Cons.IH Table_rows_error set_nested_error)
qed


lemma t1_loop_stale:
  "click_result st (length (clicks b)) = Some Stale \<Longrightarrow>
   t1_loop st tt c2 ((i, r) # rest) data b =
     (case write_dump st (b\<lparr>clicks := clicks b @ [web_element r]\<rparr>)
             (dump_file_T1 (name r))
             (if name r \<notin> set (keys data) then dict_set data (name r) [] else data) of
        Inl err \<Rightarrow> (Inl err, b\<lparr>clicks := clicks b @ [web_element r]\<rparr>)
      | Inr b2 \<Rightarrow> (Inl (DatasetException (dump_file_T1 (name r)) i None), b2))"
  by (simp add: Row_click_eq click_def Let_def)

lemma t1_loop_error:
  "click_result st (length (clicks b)) = Some e \<Longrightarrow> e \<noteq> Stale \<Longrightarrow>
   t1_loop st tt c2 ((i, r) # rest) data b
     = (Inl (raised e), b\<lparr>clicks := clicks b @ [web_element r]\<rparr>)"
  by (cases e) (simp_all add: Row_click_eq click_def Let_def)

lemma t1_loop_clicked:
  "click_result st (length (clicks b)) = None \<Longrightarrow>
   t1_loop st tt c2 ((i, r) # rest) data b =
     (case Table_rows st tt 1 (table2 st (web_element r)) of
        Inl err \<Rightarrow> (Inl err, b\<lparr>clicks := clicks b @ [web_element r]\<rparr>)
      | Inr t2_rows \<Rightarrow>
          (case t2_loop st tt r i (enumerate 0 (skip_rows c2 t2_rows))
                  (if name r \<notin> set (keys data) then dict_set data (name r) [] else data)
                  (b\<lparr>clicks := clicks b @ [web_element r]\<rparr>) of
             (Inl err, b2) \<Rightarrow> (Inl err, b2)
           | (Inr data', b2) \<Rightarrow> t1_loop st tt c2 rest data' b2))"
  by (simp add: Row_click_eq click_def Let_def)

declare t1_loop.simps(2) [simp del]

lemma t1_loop_DatasetException:
  "t1_loop st tt c2 rows data b = (Inl (DatasetException f i' j), b') \<Longrightarrow>
     length (clicks b) < length (clicks b') \<and>
     click_result st (length (clicks b') - 1) = Some Stale"
proof (induction rows arbitrary: data b)
  case Nil
  then show ?case by simp
next
  case (Cons p rest)
  obtain i0 t1_row where p: "p = (i0, t1_row)" by (cases p)
  define b1 where "b1 = b\<lparr>clicks := clicks b @ [web_element t1_row]\<rparr>"
  define data0 where
    "data0 = (if name t1_row \<notin> set (keys data) then dict_set data (name t1_row) [] else data)"
  have b1: "clicks b1 = clicks b @ [web_element t1_row]" by (simp add: b1_def)
  show ?case
  proof (cases "click_result st (length (clicks b))")
    case (Some e)
    show ?thesis
    proof (cases "e = Stale")
      case True
      with Some Cons.prems have "clicks b' = clicks b1"
        unfolding p by (auto simp: t1_loop_stale b1_def split: sum.splits dest: write_dump_clicks)
      with b1 Some True show ?thesis by simp
    next
      case False
      with Some Cons.prems show ?thesis
        unfolding p by (simp add: t1_loop_error raised_not_DatasetException)
    qed
  next
    case None
    show ?thesis
    proof (cases "Table_rows st tt 1 (table2 st (web_element t1_row))")
      case (Inl err)
      with Cons.prems None show ?thesis unfolding p
        by (auto simp: t1_loop_clicked dest: Table_rows_error)
    next
      case (Inr t2_rows)
      obtain res2 b2 where t2: "t2_loop st tt t1_row i0 (enumerate 0 (skip_rows c2 t2_rows)) data0 b1 = (res2, b2)"
        by (cases "t2_loop st tt t1_row i0 (enumerate 0 (skip_rows c2 t2_rows)) data0 b1")
      from t2_loop_clicks_mono [OF t2] b1 have mono: "length (clicks b) < length (clicks b2)" by simp
      show ?thesis
      proof (cases res2)
        case (Inl err)
        with Cons.prems None Inr t2 have res: "err = DatasetException f i' j" "b' = b2"
          unfolding p by (simp_all add: t1_loop_clicked data0_def b1_def)
        with t2 Inl have "t2_loop st tt t1_row i0 (enumerate 0 (skip_rows c2 t2_rows)) data0 b1
            = (Inl (DatasetException f i' j), b')" by simp
        from t2_loop_DatasetException [OF this] mono res show ?thesis by simp
      next
        case (Inr data')
        with Cons.prems None \<open>Table_rows st tt 1 (table2 st (web_element t1_row)) = Inr t2_rows\<close> t2
        have "t1_loop st tt c2 rest data' b2 = (Inl (DatasetException f i' j), b')"
          unfolding p by (simp add: t1_loop_clicked data0_def b1_def)
        from Cons.IH [OF this] mono show ?thesis by simp
      qed
    qed
  qed
qed

lemma load_dump_clicks: "load_dump b d = Inr (data, b0) \<Longrightarrow> clicks b0 = clicks b"
  by (auto simp: load_dump_def split: option.splits)

lemma load_dump_error: "load_dump b d = Inl err \<Longrightarrow> err = OSError"
  by (auto simp: load_dump_def split: option.splits)

lemma concat_frames_error: "concat_frames data = Inl err \<Longrightarrow> err = ValueError"
  by (simp add: concat_frames_def split: if_splits)

lemma create_dataset_DatasetException:
  assumes "create_dataset st tt b d c1 c2 = (Inl (DatasetException f i j), b')"
  shows "length (clicks b) < length (clicks b') \<and>
     click_result st (length (clicks b') - 1) = Some Stale"
proof -
  from assms obtain data b0 t1_rows where l: "load_dump b d = Inr (data, b0)"
    and "Table_rows st tt 0 (table1 st) = Inr t1_rows"
    and t1: "t1_loop st tt c2 (enumerate 0 (skip_rows c1 t1_rows)) data b0
            = (Inl (DatasetException f i j), b')"
    by (auto simp: create_dataset_def split: sum.splits prod.splits
        dest: load_dump_error Table_rows_error concat_frames_error)
  from t1_loop_DatasetException [OF t1] load_dump_clicks [OF l] show ?thesis by simp
qed

lemma retry_loop_retries:
  "create_dataset st tt b d c1 c2 = (Inl (DatasetException f i j), b') \<Longrightarrow>
     retry_loop (Suc fuel) st tt b d c1 c2 = retry_loop fuel st tt b' (Some f) (Some i) j"
  by simp

lemma retry_loop_fatal:
  "create_dataset st tt b d c1 c2 = (Inl err, b') \<Longrightarrow> (\<And>f i j. err \<noteq> DatasetException f i j) \<Longrightarrow>
     retry_loop (Suc fuel) st tt b d c1 c2 = Some (Inl err, b')"
  by (cases err) (simp_all, blast)

lemma retry_loop_no_stale:
  assumes "\<And>k. click_result st k \<noteq> Some Stale"
  shows "retry_loop (Suc fuel) st tt b d c1 c2 = Some (create_dataset st tt b d c1 c2)"
proof (cases "create_dataset st tt b d c1 c2")
  case (Pair res b')
  show ?thesis
  proof (cases res)
    case (Inl err)
    have "err \<noteq> DatasetException f i j" for f i j
    proof
      assume "err = DatasetException f i j"
      with Pair Inl have "create_dataset st tt b d c1 c2 = (Inl (DatasetException f i j), b')" by simp
      from create_dataset_DatasetException [OF this] assms show False by simp
    qed
    with Pair Inl show ?thesis using retry_loop_fatal [of st tt b d c1 c2 err b' fuel] by simp
  next
    case (Inr r)
    with Pair show ?thesis by simp
  qed
qed


lemma dict_get_dict_set_same: "dict_get (dict_set d k v) k = Some v"
  by (induction d) (auto simp: dict_get_def)

lemma create_dataset_first_click_stale:
  assumes stale: "click_result st (length (clicks b)) = Some Stale"
    and w: "writable st (dump_file_T1 (name r))"
    and rows: "Table_rows st tt 0 (table1 st) = Inr (r # rows)"
    and c1: "c1 = None \<or> c1 = Some 0"
    and l: "load_dump b d = Inr (data, b0)"
  shows "\<exists>b'. create_dataset st tt b d c1 c2
            = (Inl (DatasetException (dump_file_T1 (name r)) 0 None), b') \<and>
          dict_get (files b') (dump_file_T1 (name r)) \<noteq> None"
proof -
  from c1 have skip: "skip_rows c1 (r # rows) = r # rows"
    by (auto simp: skip_rows_def slice_from_def)
  from l have "clicks b0 = clicks b" by (rule load_dump_clicks)
  with stale have stale0: "click_result st (length (clicks b0)) = Some Stale" by simp
  define data0 where "data0 = (if name r \<notin> set (keys data) then dict_set data (name r) [] else data)"
  define b2 where "b2 = b0\<lparr>clicks := clicks b0 @ [web_element r],
      files := dict_set (files b0) (dump_file_T1 (name r)) data0\<rparr>"
  have "t1_loop st tt c2 ((0, r) # enumerate (Suc 0) rows) data b0
      = (Inl (DatasetException (dump_file_T1 (name r)) 0 None), b2)"
    using w by (simp add: t1_loop_stale [OF stale0] write_dump_def b2_def data0_def)
  then have "create_dataset st tt b d c1 c2
            = (Inl (DatasetException (dump_file_T1 (name r)) 0 None), b2)"
    using l rows skip by (simp add: create_dataset_def)
  moreover have "dict_get (files b2) (dump_file_T1 (name r)) \<noteq> None"
    by (simp add: b2_def dict_get_dict_set_same)
  ultimately show ?thesis by blast
qed

lemma retry_loop_always_stale:
  assumes stale: "\<And>k. click_result st k = Some Stale"
    and w: "\<And>f. writable st f"
    and rows: "Table_rows st tt 0 (table1 st) = Inr rows" "rows \<noteq> []"
  shows "(d = None \<and> c1 = None) \<or> (c1 = Some 0 \<and> (\<exists>f. d = Some f \<and> dict_get (files b) f \<noteq> None))
     \<Longrightarrow> retry_loop fuel st tt b d c1 None = None"
proof (induction fuel arbitrary: b d c1)
  case 0
  then show ?case by simp
next
  case (Suc fuel)
  from rows obtain r rest where r: "Table_rows st tt 0 (table1 st) = Inr (r # rest)"
    by (cases rows) auto
  from Suc.prems obtain data b0 where l: "load_dump b d = Inr (data, b0)"
    by (auto simp: load_dump_def split: option.splits)
  from Suc.prems have c1: "c1 = None \<or> c1 = Some 0" by auto
  from create_dataset_first_click_stale [OF stale w r c1 l, of None]
  obtain b' where cd: "create_dataset st tt b d c1 None
            = (Inl (DatasetException (dump_file_T1 (name r)) 0 None), b')"
    and f: "dict_get (files b') (dump_file_T1 (name r)) \<noteq> None" by blast
  have "retry_loop fuel st tt b' (Some (dump_file_T1 (name r))) (Some 0) None = None"
    by (rule Suc.IH) (use f in simp)
  with cd show ?case by simp
qed

section \<open>The table-2 resume index (C2)\<close>

text \<open>
  C2 says that a resumed attempt applies the table-2 resume index to the resumed table-1 row
  only. The code applies it to every table-1 row of the attempt. On the example page, the
  attempt resumed at table-1 position 0 and table-2 position 1 clicks, after row A and its
  table-2 row Y, row B and then only B's table-2 row Y: B's first table-2 row X is skipped
  and the pair (B, X) is never collected.
\<close>

theorem resumed_attempt_skips_in_later_rows:
  "create_dataset (example_site never_raises) Object
     \<lparr>clicks = [], files = [(dump_file_T2 ''A'' ''Y'', [(''A'', [(''X'', [(''M'', 1)])])])],
        saved = None\<rparr>
     (Some (dump_file_T2 ''A'' ''Y'')) (Some 0) (Some 1)
   = (Inr ([(''A'', [(''X'', [(''M'', 1)]), (''Y'', [(''M'', 2)])]), (''B'', [(''Y'', [(''M'', 4)])])],
           \<lparr>index = [(''A'', ''X''), (''A'', ''Y''), (''B'', ''Y'')], columns = [''M''],
              cells = [[Some 1], [Some 2], [Some 4]]\<rparr>),
      \<lparr>clicks = [''a'', ''ay'', ''b'', ''by''], files = [], saved = None\<rparr>)"
  by code_simp

section \<open>Data across a resume (C1)\<close>

text \<open>
  C1 says that a run interrupted by a stale reference and resumed from its checkpoint ends
  with all the data an uninterrupted run collects. On the example page the uninterrupted run
  collects the four pairs; the run whose third click call goes stale dumps its data, resumes
  at positions (0, 1), and ends successfully without the pair (B, X).
\<close>

theorem interrupted_run_loses_pair:
  "retry_loop 1 (example_site never_raises) Object fresh_browser None None None
   = Some (Inr ([(''A'', [(''X'', [(''M'', 1)]), (''Y'', [(''M'', 2)])]),
                 (''B'', [(''X'', [(''M'', 3)]), (''Y'', [(''M'', 4)])])],
           \<lparr>index = [(''A'', ''X''), (''A'', ''Y''), (''B'', ''X''), (''B'', ''Y'')],
              columns = [''M''], cells = [[Some 1], [Some 2], [Some 3], [Some 4]]\<rparr>),
      \<lparr>clicks = [''a'', ''ax'', ''ay'', ''b'', ''bx'', ''by''], files = [], saved = None\<rparr>) \<and>
   create_dataset (example_site (raises_at 2 Stale)) Object fresh_browser None None None
   = (Inl (DatasetException (dump_file_T2 ''A'' ''Y'') 0 (Some 1)),
      \<lparr>clicks = [''a'', ''ax'', ''ay''],
         files = [(dump_file_T2 ''A'' ''Y'', [(''A'', [(''X'', [(''M'', 1)])])])], saved = None\<rparr>) \<and>
   retry_loop 2 (example_site (raises_at 2 Stale)) Object fresh_browser None None None
   = Some (Inr ([(''A'', [(''X'', [(''M'', 1)]), (''Y'', [(''M'', 2)])]), (''B'', [(''Y'', [(''M'', 4)])])],
           \<lparr>index = [(''A'', ''X''), (''A'', ''Y''), (''B'', ''Y'')], columns = [''M''],
              cells = [[Some 1], [Some 2], [Some 4]]\<rparr>),
      \<lparr>clicks = [''a'', ''ax'', ''ay'', ''a'', ''ay'', ''b'', ''by''], files = [], saved = None\<rparr>)"
  by code_simp

section \<open>The retry policy (C8)\<close>

lemma check_axes_fails_iff:
  "check_axes menus axes = Inl ValueError \<longleftrightarrow>
     (\<exists>m \<in> set menus. \<exists>a \<in> set axes. a \<notin> set (option_names m))"
  by (induction menus) auto

lemma CollationEngine_init_unknown_axis:
  assumes "AxisMenu_calculate_all st b wt = (Inr menus, b1)"
    and "Table_calculate_all st wt = Inr tt"
    and "\<exists>m \<in> set menus. \<exists>a \<in> set axes. a \<notin> set (option_names m)"
  shows "CollationEngine_init fuel lib st wt axes b = Some (Inl ValueError, b1)"
  using assms by (simp add: CollationEngine_init_def check_axes_fails_iff [symmetric])

text \<open>
  C8. An attempt ends in DatasetException only when its last click call met a stale element
  reference, and the loop then calls \<^verbatim>\<open>create_dataset\<close> again with the dump file and the
  row positions that the exception carries. Any other exception of an attempt ends the loop
  and is the outcome of the run; without a stale reference the loop makes exactly one
  attempt, whatever its outcome. The loop has no bound: on a page where every click call
  goes stale (table 1 with at least one row, dump files writable) it never ends. An axis
  name that some menu does not offer ends the run with ValueError before the loop is
  entered.
\<close>

theorem retry_policy:
  "(create_dataset st tt b d c1 c2 = (Inl (DatasetException f i j), b') \<longrightarrow>
      click_result st (length (clicks b') - 1) = Some Stale \<and>
      length (clicks b) < length (clicks b') \<and>
      retry_loop (Suc fuel) st tt b d c1 c2 = retry_loop fuel st tt b' (Some f) (Some i) j) \<and>
   (create_dataset st tt b d c1 c2 = (Inl err, b') \<longrightarrow> (\<forall>f i j. err \<noteq> DatasetException f i j) \<longrightarrow>
      retry_loop (Suc fuel) st tt b d c1 c2 = Some (Inl err, b')) \<and>
   ((\<forall>k. click_result st k \<noteq> Some Stale) \<longrightarrow>
      retry_loop (Suc fuel) st tt b d c1 c2 = Some (create_dataset st tt b d c1 c2)) \<and>
   ((\<forall>k. click_result st k = Some Stale) \<longrightarrow> (\<forall>f. writable st f) \<longrightarrow>
      Table_rows st tt 0 (table1 st) = Inr rows \<longrightarrow> rows \<noteq> [] \<longrightarrow>
      retry_loop fuel st tt b None None None = None) \<and>
   (AxisMenu_calculate_all st b wt = (Inr menus, b1) \<longrightarrow> Table_calculate_all st wt = Inr tt \<longrightarrow>
      (\<exists>m \<in> set menus. \<exists>a \<in> set axes. a \<notin> set (option_names m)) \<longrightarrow>
      CollationEngine_init fuel lib st wt axes b = Some (Inl ValueError, b1))"
proof (intro conjI impI)
  assume cd: "create_dataset st tt b d c1 c2 = (Inl (DatasetException f i j), b')"
  from create_dataset_DatasetException [OF cd]
  show "click_result st (length (clicks b') - 1) = Some Stale"
    and "length (clicks b) < length (clicks b')" by simp_all
  from cd show "retry_loop (Suc fuel) st tt b d c1 c2 = retry_loop fuel st tt b' (Some f) (Some i) j"
    by (rule retry_loop_retries)
next
  assume "create_dataset st tt b d c1 c2 = (Inl err, b')" and "\<forall>f i j. err \<noteq> DatasetException f i j"
  then show "retry_loop (Suc fuel) st tt b d c1 c2 = Some (Inl err, b')"
    using retry_loop_fatal [of st tt b d c1 c2 err b' fuel] by simp
next
  assume "\<forall>k. click_result st k \<noteq> Some Stale"
  then show "retry_loop (Suc fuel) st tt b d c1 c2 = Some (create_dataset st tt b d c1 c2)"
    using retry_loop_no_stale [of st fuel tt b d c1 c2] by simp
next
  assume "\<forall>k. click_result st k = Some Stale" and "\<forall>f. writable st f"
    and "Table_rows st tt 0 (table1 st) = Inr rows" and "rows \<noteq> []"
  then show "retry_loop fuel st tt b None None None = None"
    using retry_loop_always_stale [of st tt rows None None b fuel] by simp
next
  assume "AxisMenu_calculate_all st b wt = (Inr menus, b1)" and "Table_calculate_all st wt = Inr tt"
    and "\<exists>m \<in> set menus. \<exists>a \<in> set axes. a \<notin> set (option_names m)"
  then show "CollationEngine_init fuel lib st wt axes b = Some (Inl ValueError, b1)"
    by (rule CollationEngine_init_unknown_axis)
qed


text \<open>
  The hypotheses of C8's theorem hold on the example page: with a stale third click call,
  with a timeout at the second click call, with click calls that never fail, with click
  calls that always go stale, and with an axis name W that no menu offers.
\<close>

theorem retry_policy_witness:
  "create_dataset (example_site (raises_at 2 Stale)) Object fresh_browser None None None
     = (Inl (DatasetException (dump_file_T2 ''A'' ''Y'') 0 (Some 1)),
        \<lparr>clicks = [''a'', ''ax'', ''ay''],
           files = [(dump_file_T2 ''A'' ''Y'', [(''A'', [(''X'', [(''M'', 1)])])])], saved = None\<rparr>) \<and>
   click_result (example_site (raises_at 2 Stale)) 2 = Some Stale \<and>
   retry_loop 2 (example_site (raises_at 2 Stale)) Object fresh_browser None None None
     = retry_loop 1 (example_site (raises_at 2 Stale)) Object
         \<lparr>clicks = [''a'', ''ax'', ''ay''],
            files = [(dump_file_T2 ''A'' ''Y'', [(''A'', [(''X'', [(''M'', 1)])])])], saved = None\<rparr>
         (Some (dump_file_T2 ''A'' ''Y'')) (Some 0) (Some 1) \<and>
   create_dataset (example_site (raises_at 1 Timeout)) Object fresh_browser None None None
     = (Inl TimeoutException, \<lparr>clicks = [''a'', ''ax''], files = [], saved = None\<rparr>) \<and>
   retry_loop 5 (example_site (raises_at 1 Timeout)) Object fresh_browser None None None
     = Some (Inl TimeoutException, \<lparr>clicks = [''a'', ''ax''], files = [], saved = None\<rparr>) \<and>
   retry_loop 5 (example_site never_raises) Object fresh_browser None None None
     = Some (create_dataset (example_site never_raises) Object fresh_browser None None None) \<and>
   retry_loop 5 (example_site always_stale) Object fresh_browser None None None = None \<and>
   CollationEngine_init 5 example_library (example_site never_raises) LinkWhole
       [''X'', ''Y'', ''W''] fresh_browser
     = Some (Inl ValueError, fresh_browser)"
proof -
  let ?b1 = "\<lparr>clicks = [''a'', ''ax'', ''ay''],
      files = [(dump_file_T2 ''A'' ''Y'', [(''A'', [(''X'', [(''M'', 1)])])])], saved = None\<rparr>"
  let ?b2 = "\<lparr>clicks = [''a'', ''ax''], files = [], saved = None\<rparr> :: string browser"
  have c1: "create_dataset (example_site (raises_at 2 Stale)) Object fresh_browser None None None
     = (Inl (DatasetException (dump_file_T2 ''A'' ''Y'') 0 (Some 1)), ?b1)"
    by code_simp
  have c2: "create_dataset (example_site (raises_at 1 Timeout)) Object fresh_browser None None None
     = (Inl TimeoutException, ?b2)"
    by code_simp
  have no_stale: "\<forall>k. click_result (example_site never_raises) k \<noteq> Some Stale"
    by (simp add: example_site_def never_raises_def)
  have stale: "\<forall>k. click_result (example_site always_stale) k = Some Stale"
    by (simp add: example_site_def always_stale_def)
  have w: "\<forall>f. writable (example_site always_stale) f"
    by (simp add: example_site_def)
  have rows: "Table_rows (example_site always_stale) Object 0 (table1 (example_site always_stale))
      = Inr [\<lparr>web_element = ''a'', table_type = Object, name = ''A'', value = 10\<rparr>,
             \<lparr>web_element = ''b'', table_type = Object, name = ''B'', value = 5\<rparr>]"
    by code_simp
  have menus: "AxisMenu_calculate_all (example_site never_raises) fresh_browser LinkWhole
      = (Inr [\<lparr>clickable_element = ''m0'', webpage_type = LinkWhole,
                options = [(''m0-x'', ''X''), (''m0-y'', ''Y''), (''m0-z'', ''Z'')]\<rparr>,
              \<lparr>clickable_element = ''m1'', webpage_type = LinkWhole,
                options = [(''m1-x'', ''X''), (''m1-y'', ''Y''), (''m1-z'', ''Z'')]\<rparr>,
              \<lparr>clickable_element = ''m2'', webpage_type = LinkWhole,
                options = [(''m2-x'', ''X''), (''m2-y'', ''Y''), (''m2-z'', ''Z'')]\<rparr>], fresh_browser)"
    by code_simp
  have tables: "Table_calculate_all (example_site never_raises) LinkWhole = Inr Link"
    by code_simp
  note p1 = retry_policy [where st = "example_site (raises_at 2 Stale)" and tt = Object
      and b = fresh_browser and d = None and ?c1.0 = None and ?c2.0 = None
      and f = "dump_file_T2 ''A'' ''Y''" and i = 0 and j = "Some 1" and b' = ?b1 and fuel = 1]
  note p2 = retry_policy [where st = "example_site (raises_at 1 Timeout)" and tt = Object
      and b = fresh_browser and d = None and ?c1.0 = None and ?c2.0 = None
      and err = TimeoutException and b' = ?b2 and fuel = 4]
  note p3 = retry_policy [where st = "example_site never_raises" and tt = Object
      and b = fresh_browser and d = None and ?c1.0 = None and ?c2.0 = None and fuel = 4]
  note p4 = retry_policy [where st = "example_site always_stale" and tt = Object
      and b = fresh_browser and fuel = 5
      and rows = "[\<lparr>web_element = ''a'', table_type = Object, name = ''A'', value = 10\<rparr>,
             \<lparr>web_element = ''b'', table_type = Object, name = ''B'', value = 5\<rparr>]"]
  note p5 = retry_policy [where st = "example_site never_raises" and wt = LinkWhole
      and b = fresh_browser and ?b1.0 = fresh_browser and tt = Link and fuel = 5
      and lib = example_library and axes = "[''X'', ''Y'', ''W'']"
      and menus = "[\<lparr>clickable_element = ''m0'', webpage_type = LinkWhole,
                options = [(''m0-x'', ''X''), (''m0-y'', ''Y''), (''m0-z'', ''Z'')]\<rparr>,
              \<lparr>clickable_element = ''m1'', webpage_type = LinkWhole,
                options = [(''m1-x'', ''X''), (''m1-y'', ''Y''), (''m1-z'', ''Z'')]\<rparr>,
              \<lparr>clickable_element = ''m2'', webpage_type = LinkWhole,
                options = [(''m2-x'', ''X''), (''m2-y'', ''Y''), (''m2-z'', ''Z'')]\<rparr>]"]
  from p1 c1 have r1: "click_result (example_site (raises_at 2 Stale)) 2 = Some Stale"
    "retry_loop 2 (example_site (raises_at 2 Stale)) Object fresh_browser None None None
     = retry_loop 1 (example_site (raises_at 2 Stale)) Object ?b1
         (Some (dump_file_T2 ''A'' ''Y'')) (Some 0) (Some 1)"
    by (simp_all add: numeral_2_eq_2)
  from p2 c2 have r2: "retry_loop 5 (example_site (raises_at 1 Timeout)) Object fresh_browser None None None
     = Some (Inl TimeoutException, ?b2)"
    by (simp add: eval_nat_numeral)
  from p3 no_stale have r3: "retry_loop 5 (example_site never_raises) Object fresh_browser None None None
     = Some (create_dataset (example_site never_raises) Object fresh_browser None None None)"
    by (simp add: eval_nat_numeral)
  from p4 stale w rows have r4:
    "retry_loop 5 (example_site always_stale) Object fresh_browser None None None = None"
    by simp
  from p5 menus tables have r5: "CollationEngine_init 5 example_library (example_site never_raises) LinkWhole
       [''X'', ''Y'', ''W''] fresh_browser = Some (Inl ValueError, fresh_browser)"
    by (simp add: option_names_def)
  from c1 c2 r1 r2 r3 r4 r5 show ?thesis by (intro conjI)
qed

section \<open>The check of the axis names (C3)\<close>

lemma calculate_options_object:
  "is_object (webpage_type m) \<Longrightarrow> calculate_options st b m = (Inr m', b1) \<Longrightarrow>
     b1 = b\<lparr>clicks := clicks b @ [clickable_element m]\<rparr> \<and> clickable_element m' = clickable_element m"
  by (auto simp: calculate_options_def click_def split: option.splits sum.splits)

lemma calculate_options_link:
  "\<not> is_object (webpage_type m) \<Longrightarrow> calculate_options st b m = (Inr m', b1) \<Longrightarrow>
     b1 = b \<and> clickable_element m' = clickable_element m"
  by (auto simp: calculate_options_def split: sum.splits if_splits)

lemma AxisMenu_init_clicks:
  assumes "AxisMenu_init st b wt k = (Inr m, b1)"
  shows "k < length (menu_elements st) \<and> clickable_element m = menu_elements st ! k \<and>
     b1 = (if is_object wt then b\<lparr>clicks := clicks b @ [menu_elements st ! k]\<rparr> else b)"
proof -
  from assms have k: "k < length (menu_elements st)"
    and c: "calculate_options st b
        \<lparr>clickable_element = menu_elements st ! k, webpage_type = wt, options = []\<rparr> = (Inr m, b1)"
    by (auto simp: AxisMenu_init_def wait_all_def split: if_splits)
  show ?thesis
  proof (cases "is_object wt")
    case True
    with calculate_options_object [OF _ c] k show ?thesis by simp
  next
    case False
    with calculate_options_link [OF _ c] k show ?thesis by simp
  qed
qed

lemma init_menus_clicks:
  "init_menus st b wt ks = (Inr menus, b1) \<Longrightarrow>
     map clickable_element menus = map (\<lambda>k. menu_elements st ! k) ks \<and>
     b1 = (if is_object wt then b\<lparr>clicks := clicks b @ map (\<lambda>k. menu_elements st ! k) ks\<rparr> else b)"
proof (induction ks arbitrary: b menus)
  case Nil
  then show ?case by simp
next
  case (Cons k ks)
  from Cons.prems obtain m b0 ms where m: "AxisMenu_init st b wt k = (Inr m, b0)"
    and ms: "init_menus st b0 wt ks = (Inr ms, b1)" and menus: "menus = m # ms"
    by (auto split: sum.splits prod.splits)
  from AxisMenu_init_clicks [OF m] Cons.IH [OF ms] menus show ?case by simp
qed

lemma AxisMenu_calculate_all_clicks:
  assumes "AxisMenu_calculate_all st b wt = (Inr menus, b1)"
  shows "(wt = ObjectWhole \<or> wt = LinkWhole) \<and> length menus = 3 \<and>
     b1 = (if wt = ObjectWhole then b\<lparr>clicks := clicks b @ map clickable_element menus\<rparr> else b)"
proof -
  from assms have wt: "wt = ObjectWhole \<or> wt = LinkWhole"
    and i: "init_menus st b wt [0, 1, 2] = (Inr menus, b1)"
    by (auto simp: AxisMenu_calculate_all_def split: webpage_type.splits)
  from init_menus_clicks [OF i] have m: "map clickable_element menus = map (\<lambda>k. menu_elements st ! k) [0, 1, 2]"
    and b1: "b1 = (if is_object wt then b\<lparr>clicks := clicks b @ map (\<lambda>k. menu_elements st ! k) [0, 1, 2]\<rparr> else b)"
    by simp_all
  from m have "length (map clickable_element menus) = 3" by simp
  then have "length menus = 3" by simp
  with wt b1 m show ?thesis by (auto simp: is_object_def)
qed

text \<open>
  C3, amended. When the menus and tables have been calculated and some requested axis name
  is missing from some menu's options, the run ends with ValueError right after the
  calculation of the menus: no axis option has been selected and no table row clicked. On
  a link page no click call at all has been issued; on an object page exactly the three
  click calls that open the three menus, so that their options can be read, have been
  issued.
\<close>

theorem axis_check_precedes_selection:
  "AxisMenu_calculate_all st b wt = (Inr menus, b1) \<longrightarrow> Table_calculate_all st wt = Inr tt \<longrightarrow>
   (\<exists>m \<in> set menus. \<exists>a \<in> set axes. a \<notin> set (option_names m)) \<longrightarrow>
     CollationEngine_init fuel lib st wt axes b = Some (Inl ValueError, b1) \<and>
     length menus = 3 \<and>
     (wt = LinkWhole \<longrightarrow> b1 = b) \<and>
     (wt = ObjectWhole \<longrightarrow> b1 = b\<lparr>clicks := clicks b @ map clickable_element menus\<rparr>) \<and>
     (wt = LinkWhole \<or> wt = ObjectWhole)"
proof (intro impI)
  assume m: "AxisMenu_calculate_all st b wt = (Inr menus, b1)"
    and t: "Table_calculate_all st wt = Inr tt"
    and a: "\<exists>m \<in> set menus. \<exists>a \<in> set axes. a \<notin> set (option_names m)"
  from a have "check_axes menus axes = Inl ValueError" by (simp only: check_axes_fails_iff)
  with m t have "CollationEngine_init fuel lib st wt axes b = Some (Inl ValueError, b1)"
    by (simp add: CollationEngine_init_def)
  with AxisMenu_calculate_all_clicks [OF m]
  show "CollationEngine_init fuel lib st wt axes b = Some (Inl ValueError, b1) \<and>
     length menus = 3 \<and>
     (wt = LinkWhole \<longrightarrow> b1 = b) \<and>
     (wt = ObjectWhole \<longrightarrow> b1 = b\<lparr>clicks := clicks b @ map clickable_element menus\<rparr>) \<and>
     (wt = LinkWhole \<or> wt = ObjectWhole)"
    by auto
qed

text \<open>
  C3, the claim as stated, on the object variant of the example page with the axis name W
  that no menu offers: the run ends with ValueError after three click calls, one on each
  menu, not after none.
\<close>

theorem object_menus_clicked_counterexample:
  "CollationEngine_init 5 example_library (example_site never_raises) ObjectWhole
       [''X'', ''Y'', ''W''] fresh_browser
     = Some (Inl ValueError, \<lparr>clicks = [''m0'', ''m1'', ''m2''], files = [], saved = None\<rparr>)"
  by code_simp


text \<open>The hypotheses of C3's theorem hold on both variants of the example page.\<close>

theorem axis_check_precedes_selection_witness:
  "CollationEngine_init 5 example_library (example_site never_raises) LinkWhole
       [''X'', ''Y'', ''W''] fresh_browser
     = Some (Inl ValueError, fresh_browser) \<and>
   CollationEngine_init 5 example_library (example_site never_raises) ObjectWhole
       [''X'', ''Y'', ''W''] fresh_browser
     = Some (Inl ValueError, fresh_browser\<lparr>clicks := [''m0'', ''m1'', ''m2'']\<rparr>)"
proof -
  let ?menus = "\<lambda>wt. [\<lparr>clickable_element = ''m0'', webpage_type = wt,
                options = [(''m0-x'', ''X''), (''m0-y'', ''Y''), (''m0-z'', ''Z'')]\<rparr>,
              \<lparr>clickable_element = ''m1'', webpage_type = wt,
                options = [(''m1-x'', ''X''), (''m1-y'', ''Y''), (''m1-z'', ''Z'')]\<rparr>,
              \<lparr>clickable_element = ''m2'', webpage_type = wt,
                options = [(''m2-x'', ''X''), (''m2-y'', ''Y''), (''m2-z'', ''Z'')]\<rparr>]"
  have link_menus: "AxisMenu_calculate_all (example_site never_raises) fresh_browser LinkWhole
      = (Inr (?menus LinkWhole), fresh_browser)"
    by code_simp
  have object_menus: "AxisMenu_calculate_all (example_site never_raises) fresh_browser ObjectWhole
      = (Inr (?menus ObjectWhole), fresh_browser\<lparr>clicks := [''m0'', ''m1'', ''m2'']\<rparr>)"
    by code_simp
  have link_tables: "Table_calculate_all (example_site never_raises) LinkWhole = Inr Link"
    by code_simp
  have object_tables: "Table_calculate_all (example_site never_raises) ObjectWhole = Inr Object"
    by code_simp
  have missing: "\<exists>m \<in> set (?menus wt). \<exists>a \<in> set [''X'', ''Y'', ''W'']. a \<notin> set (option_names m)" for wt
    by (simp add: option_names_def)
  from axis_check_precedes_selection [where st = "example_site never_raises" and b = fresh_browser
      and wt = LinkWhole and menus = "?menus LinkWhole" and ?b1.0 = fresh_browser and tt = Link
      and axes = "[''X'', ''Y'', ''W'']" and fuel = 5 and lib = example_library]
    link_menus link_tables missing [of LinkWhole]
  have l: "CollationEngine_init 5 example_library (example_site never_raises) LinkWhole
       [''X'', ''Y'', ''W''] fresh_browser = Some (Inl ValueError, fresh_browser)"
    by blast
  from axis_check_precedes_selection [where st = "example_site never_raises" and b = fresh_browser
      and wt = ObjectWhole and menus = "?menus ObjectWhole"
      and ?b1.0 = "fresh_browser\<lparr>clicks := [''m0'', ''m1'', ''m2'']\<rparr>" and tt = Object
      and axes = "[''X'', ''Y'', ''W'']" and fuel = 5 and lib = example_library]
    object_menus object_tables missing [of ObjectWhole]
  have o: "CollationEngine_init 5 example_library (example_site never_raises) ObjectWhole
       [''X'', ''Y'', ''W''] fresh_browser
     = Some (Inl ValueError, fresh_browser\<lparr>clicks := [''m0'', ''m1'', ''m2'']\<rparr>)"
    by blast
  from l o show ?thesis by (rule conjI)
qed

section \<open>Properties of normalization\<close>

lemma sorted_builtin_axis: "sorted_builtin [''axis''] xs = Inl TypeError"
  by (simp add: sorted_builtin_def)

lemma normalize_rows_error:
  "normalize_rows df = Inl err \<longleftrightarrow> \<not> distinct (index df) \<and> err = ValueError"
  by (auto simp: normalize_rows_def reindex_def)

lemma clean_dataset_never_returns:
  "clean_dataset lib axes df = (if distinct (index df) then Inl TypeError else Inl ValueError)"
  by (cases "normalize_rows df")
     (auto simp: clean_dataset_def sorted_builtin_axis normalize_rows_error
        normalize_rows_def reindex_def split: if_splits)

lemma set_unique [simp]: "set (unique xs) = set xs"
  by (simp add: unique_def)

lemma distinct_unique [simp]: "distinct (unique xs)"
  by (simp add: unique_def)

lemma set_from_product [simp]: "set (from_product xs ys) = set xs \<times> set ys"
  by (auto simp: from_product_def)

lemma length_from_product [simp]: "length (from_product xs ys) = length xs * length ys"
  by (induction xs) (simp_all add: from_product_def)

lemma distinct_from_product: "distinct xs \<Longrightarrow> distinct ys \<Longrightarrow> distinct (from_product xs ys)"
proof (induction xs)
  case Nil
  then show ?case by (simp add: from_product_def)
next
  case (Cons x xs)
  then have "distinct (from_product xs ys)" by simp
  moreover have "distinct (map (\<lambda>y. (x, y)) ys)"
    using Cons.prems(2) by (simp add: distinct_map inj_on_def)
  moreover have "set (map (\<lambda>y. (x, y)) ys) \<inter> set (from_product xs ys) = {}"
    using Cons.prems(1) by auto
  ultimately show ?case by (simp add: from_product_def)
qed

lemma sort_key_fst_graph:
  fixes I :: "('a::linorder) list"
  assumes "distinct I"
  shows "sort_key fst (map (\<lambda>l. (l, g l)) I) = map (\<lambda>l. (l, g l)) (sort I)"
proof -
  let ?Z = "map (\<lambda>l. (l, g l)) I"
  let ?R = "sort_key fst ?Z"
  have s: "sorted (map fst ?R)" by (rule sorted_sort_key)
  have set_R: "set (map fst ?R) = set I" by (simp add: image_image)
  have "card (set (map fst ?R)) = length (map fst ?R)"
    using assms set_R by (simp add: distinct_card)
  then have d: "distinct (map fst ?R)" by (rule card_distinct)
  have "map fst ?R = sort I"
    by (rule sorted_distinct_set_unique) (use s d set_R assms in simp_all)
  moreover have "?R = map (\<lambda>l. (l, g l)) (map fst ?R)"
  proof -
    have "\<And>p. p \<in> set ?R \<Longrightarrow> (fst p, g (fst p)) = p" by auto
    then have "map (\<lambda>p. (fst p, g (fst p))) ?R = ?R"
      by (rule map_idI)
    then show ?thesis by (simp add: comp_def)
  qed
  ultimately show ?thesis by simp
qed

lemma sort_index_graph:
  assumes "distinct (index df)" and "cells df = map g (index df)"
  shows "sort_index df = df\<lparr>index := sort (index df), cells := map g (sort (index df))\<rparr>"
proof -
  have "zip (index df) (cells df) = map (\<lambda>l. (l, g l)) (index df)"
    by (simp add: assms(2) zip_map2 zip_same_conv_map)
  then show ?thesis
    by (simp add: sort_index_def Let_def sort_key_fst_graph [OF assms(1)] comp_def)
qed


lemma normalize_rows_eq:
  assumes "distinct (index df)"
  shows "normalize_rows df =
     Inr (df\<lparr>index := sort (from_product (unique_index1 df) (unique_index2 df)),
              cells := map (filled_row df) (sort (from_product (unique_index1 df) (unique_index2 df)))\<rparr>)"
proof -
  let ?P = "from_product (unique_index1 df) (unique_index2 df)"
  let ?df2 = "df\<lparr>index := ?P, cells := map (filled_row df) ?P\<rparr>"
  have dP: "distinct ?P"
    by (simp add: distinct_from_product unique_index1_def unique_index2_def)
  have f: "(\<lambda>l. map fill_zero (case row_of df l of
                      Some row \<Rightarrow> row
                    | None \<Rightarrow> replicate (length (columns df)) None)) = filled_row df"
    by (simp add: filled_row_def fun_eq_iff)
  have "normalize_rows df = Inr (sort_index ?df2)"
    using assms by (simp add: normalize_rows_def reindex_def fillna_def comp_def f)
  moreover have "sort_index ?df2 = ?df2\<lparr>index := sort (index ?df2),
      cells := map (filled_row df) (sort (index ?df2))\<rparr>"
    by (rule sort_index_graph) (use dP in simp_all)
  ultimately show ?thesis by simp
qed

lemma fill_zero_idem [simp]: "fill_zero (fill_zero c) = fill_zero c"
  by (cases c) (simp_all add: fill_zero_def)

lemma product_of_projections: "fst ` (A \<times> B) \<times> snd ` (A \<times> B) = A \<times> B"
  by force

lemma normalize_rows_idempotent:
  assumes "normalize_rows df = Inr df1"
  shows "normalize_rows df1 = Inr df1"
proof -
  let ?P = "from_product (unique_index1 df) (unique_index2 df)"
  let ?S = "sort ?P"
  from assms have d: "distinct (index df)"
    by (auto simp: normalize_rows_def reindex_def split: if_splits)
  from normalize_rows_eq [OF d] assms
  have df1: "df1 = df\<lparr>index := ?S, cells := map (filled_row df) ?S\<rparr>" by simp
  have dP: "distinct ?P"
    by (simp add: distinct_from_product unique_index1_def unique_index2_def)
  have i1: "index df1 = ?S" and c1: "cells df1 = map (filled_row df) ?S"
    and cols: "columns df1 = columns df" by (simp_all add: df1)
  have d1: "distinct (index df1)" using dP by (simp add: i1)
  let ?P1 = "from_product (unique_index1 df1) (unique_index2 df1)"
  have dP1: "distinct ?P1"
    by (simp add: distinct_from_product unique_index1_def unique_index2_def)
  have "set ?P1 = fst ` set ?P \<times> snd ` set ?P"
    by (simp add: unique_index1_def unique_index2_def i1)
  also have "\<dots> = set ?P" by (simp add: product_of_projections)
  finally have set1: "set ?P1 = set ?P" .
  have S1: "sort ?P1 = ?S"
    by (rule sorted_distinct_set_unique) (use dP dP1 set1 in simp_all)
  have rows: "filled_row df1 l = filled_row df l" if "l \<in> set ?S" for l
  proof -
    have "row_of df1 l = Some (filled_row df l)"
      using that by (simp add: row_of_def i1 c1 map_of_zip_map)
    then show ?thesis by (simp add: filled_row_def)
  qed
  have "map (filled_row df1) ?S = map (filled_row df) ?S"
    by (rule map_cong [OF refl]) (rule rows)
  with S1 have m: "map (filled_row df1) (sort ?P1) = map (filled_row df) ?S" by simp
  have "normalize_rows df1 = Inr (df1\<lparr>index := sort ?P1, cells := map (filled_row df1) (sort ?P1)\<rparr>)"
    by (rule normalize_rows_eq [OF d1])
  also have "\<dots> = Inr (df1\<lparr>index := index df1, cells := cells df1\<rparr>)"
    unfolding m unfolding S1 i1 c1 ..
  also have "\<dots> = Inr df1" by simp
  finally show ?thesis .
qed

lemma frame_rows_Nil [simp]: "frame_rows cols [] = []"
  by (simp add: frame_rows_def)

lemma frame_rows_Cons:
  "frame_rows cols ((k, v) # data) =
     map (\<lambda>(k2, t3). ((k, k2), map (dict_get t3) cols)) v @ frame_rows cols data"
  by (simp add: frame_rows_def)

lemma concat_frames_rows:
  assumes "concat_frames data = Inr df"
  shows "index df = map fst (frame_rows (frame_columns data) data)"
    and "cells df = map snd (frame_rows (frame_columns data) data)"
    and "columns df = frame_columns data"
proof -
  from assms have df: "df = \<lparr>index = concat (map (\<lambda>(k1, v). map (\<lambda>(k2, t3). (k1, k2)) v) data),
                columns = frame_columns data,
                cells = concat (map (\<lambda>(k1, v).
                          map (\<lambda>(k2, t3). map (dict_get t3) (frame_columns data)) v) data)\<rparr>"
    by (simp add: concat_frames_def split: if_splits)
  show "index df = map fst (frame_rows (frame_columns data) data)"
    by (simp add: df frame_rows_def map_concat comp_def case_prod_unfold)
  show "cells df = map snd (frame_rows (frame_columns data) data)"
    by (simp add: df frame_rows_def map_concat comp_def case_prod_unfold)
  show "columns df = frame_columns data" by (simp add: df)
qed

lemma map_of_inner_rows:
  "map_of (map (\<lambda>(k2, t3). ((k, k2), f t3)) v) (k1, k2) =
     (if k1 = k then map_option f (map_of v k2) else None)"
  by (induction v) auto

lemma map_of_frame_rows_absent:
  "k1 \<notin> set (keys data) \<Longrightarrow> map_of (frame_rows cols data) (k1, k2) = None"
proof (induction data)
  case Nil
  then show ?case by simp
next
  case (Cons p data)
  obtain k v where p: "p = (k, v)" by (cases p)
  with Cons show ?case
    by (simp add: frame_rows_Cons keys_def map_add_def map_of_inner_rows)
qed

lemma map_of_frame_rows:
  "distinct (keys data) \<Longrightarrow>
   map_of (frame_rows cols data) (k1, k2) =
     (case dict_get data k1 of
        None \<Rightarrow> None
      | Some v \<Rightarrow> map_option (\<lambda>t3. map (dict_get t3) cols) (dict_get v k2))"
proof (induction data)
  case Nil
  then show ?case by (simp add: dict_get_def)
next
  case (Cons p data)
  obtain k v where p: "p = (k, v)" by (cases p)
  from Cons.prems p have k: "k \<notin> set (keys data)" and d: "distinct (keys data)"
    by (simp_all add: keys_def)
  show ?case
  proof (cases "k1 = k")
    case True
    with k have "map_of (frame_rows cols data) (k1, k2) = None"
      by (simp add: map_of_frame_rows_absent)
    with True show ?thesis
      by (simp add: p frame_rows_Cons map_add_def map_of_inner_rows dict_get_def
          split: option.splits)
  next
    case False
    with Cons.IH [OF d] show ?thesis
      by (simp add: p frame_rows_Cons map_add_def map_of_inner_rows dict_get_def)
  qed
qed


lemma set_frame_labels:
  "set (map fst (frame_rows cols data)) =
     {(k1, k2). \<exists>v t3. (k1, v) \<in> set data \<and> (k2, t3) \<in> set v}"
proof (induction data)
  case Nil
  then show ?case by simp
next
  case (Cons p data)
  obtain k v where p: "p = (k, v)" by (cases p)
  have "set (map fst (map (\<lambda>(k2, t3). ((k, k2), map (dict_get t3) cols)) v))
      = {(k1, k2). k1 = k \<and> (\<exists>t3. (k2, t3) \<in> set v)}"
    by (auto simp: image_iff) force
  with Cons.IH show ?case unfolding p frame_rows_Cons by auto
qed

lemma distinct_frame_labels:
  assumes "distinct (keys data)" and "\<forall>(k1, v) \<in> set data. distinct (keys v)"
  shows "distinct (map fst (frame_rows cols data))"
  using assms
proof (induction data)
  case Nil
  then show ?case by simp
next
  case (Cons p data)
  obtain k v where p: "p = (k, v)" by (cases p)
  from Cons.prems p have k: "k \<notin> set (keys data)" and d: "distinct (keys data)"
    and dv: "distinct (keys v)" and rest: "\<forall>(k1, v) \<in> set data. distinct (keys v)"
    by (simp_all add: keys_def)
  have here: "map fst (map (\<lambda>(k2, t3). ((k, k2), map (dict_get t3) cols)) v) = map (\<lambda>k2. (k, k2)) (keys v)"
    by (simp add: keys_def comp_def case_prod_unfold)
  have d1: "distinct (map (\<lambda>k2. (k, k2)) (keys v))"
    using dv by (simp add: distinct_map inj_on_def)
  have d2: "distinct (map fst (frame_rows cols data))" using d rest by (rule Cons.IH)
  have "set (map (\<lambda>k2. (k, k2)) (keys v)) \<inter> set (map fst (frame_rows cols data)) = {}"
  proof -
    have "(k, k2) \<notin> set (map fst (frame_rows cols data))" for k2
      using k unfolding set_frame_labels keys_def by force
    then show ?thesis by auto
  qed
  with d1 d2 have "distinct (map (\<lambda>k2. (k, k2)) (keys v) @ map fst (frame_rows cols data))"
    by simp
  then have "distinct (map fst (map (\<lambda>(k2, t3). ((k, k2), map (dict_get t3) cols)) v
      @ frame_rows cols data))"
    unfolding map_append here .
  then show ?case unfolding p frame_rows_Cons .
qed

lemma row_of_concat_frames:
  assumes "concat_frames data = Inr df"
  shows "row_of df l = map_of (frame_rows (frame_columns data) data) l"
  by (simp add: row_of_def concat_frames_rows [OF assms] zip_map_fst_snd)

lemma filled_row_collected:
  assumes d: "distinct (keys data)" and c: "concat_frames data = Inr df"
  shows "filled_row df (k1, k2) = map (\<lambda>c. Some (collected data k1 k2 c)) (columns df)"
proof -
  have cols: "columns df = frame_columns data" using c by (rule concat_frames_rows)
  have r: "row_of df (k1, k2) =
     (case dict_get data k1 of
        None \<Rightarrow> None
      | Some v \<Rightarrow> map_option (\<lambda>t3. map (dict_get t3) (columns df)) (dict_get v k2))"
    unfolding row_of_concat_frames [OF c] map_of_frame_rows [OF d] cols ..
  show ?thesis
  proof (cases "dict_get data k1")
    case None
    with r show ?thesis by (simp add: filled_row_def collected_def fill_zero_def map_replicate_const)
  next
    case (Some v)
    show ?thesis
    proof (cases "dict_get v k2")
      case None
      with r Some show ?thesis
        by (simp add: filled_row_def collected_def fill_zero_def map_replicate_const)
    next
      case (Some t3)
      with r \<open>dict_get data k1 = Some v\<close> show ?thesis
        by (simp add: filled_row_def collected_def fill_zero_def comp_def split: option.splits)
    qed
  qed
qed


lemma length_unique: "length (unique xs) = card (set xs)"
  using distinct_card [of "unique xs"] by simp

section \<open>Completeness and gap filling (C6)\<close>

text \<open>
  C6, amended. For every collected dataset (a dict of dicts, so with distinct keys at both
  levels) that gives a frame, the row stage of normalization (lines 472 to 481) returns a
  frame with exactly one row for every pair in the cross product of the table-1 names that
  have at least one table-2 entry and the table-2 names that occur under some table-1 name;
  the row count is the product of the two counts, the rows are sorted, the columns are
  those of the frame, and each cell is the value collected for its pair under its column,
  0 where none was collected. A table-1 name with no table-2 entry gets no row.
\<close>

theorem row_stage_cross_product:
  assumes "distinct (keys data)" and "\<forall>(k1, v) \<in> set data. distinct (keys v)"
    and "concat_frames data = Inr df"
  shows "\<exists>df1. normalize_rows df = Inr df1 \<and>
     sorted (index df1) \<and> distinct (index df1) \<and>
     set (index df1) = {k1. \<exists>v. (k1, v) \<in> set data \<and> v \<noteq> []}
                       \<times> {k2. \<exists>k1 v t3. (k1, v) \<in> set data \<and> (k2, t3) \<in> set v} \<and>
     length (index df1) = card {k1. \<exists>v. (k1, v) \<in> set data \<and> v \<noteq> []}
                          * card {k2. \<exists>k1 v t3. (k1, v) \<in> set data \<and> (k2, t3) \<in> set v} \<and>
     columns df1 = columns df \<and>
     cells df1 = map (\<lambda>(k1, k2). map (\<lambda>c. Some (collected data k1 k2 c)) (columns df)) (index df1)"
proof -
  let ?T1 = "{k1. \<exists>v. (k1, v) \<in> set data \<and> v \<noteq> []}"
  let ?T2 = "{k2. \<exists>k1 v t3. (k1, v) \<in> set data \<and> (k2, t3) \<in> set v}"
  let ?P = "from_product (unique_index1 df) (unique_index2 df)"
  let ?df1 = "df\<lparr>index := sort ?P, cells := map (filled_row df) (sort ?P)\<rparr>"
  note rows = concat_frames_rows [OF assms(3)]
  have d: "distinct (index df)"
    unfolding rows(1) using assms(1,2) by (rule distinct_frame_labels)
  have labels: "set (index df) = {(k1, k2). \<exists>v t3. (k1, v) \<in> set data \<and> (k2, t3) \<in> set v}"
    unfolding rows(1) by (rule set_frame_labels)
  have u1: "set (unique_index1 df) = ?T1"
  proof -
    have "fst ` set (index df) = ?T1"
    proof (intro set_eqI iffI)
      fix k1 assume "k1 \<in> fst ` set (index df)"
      then obtain k2 where "(k1, k2) \<in> set (index df)" by force
      then obtain v t3 where "(k1, v) \<in> set data" "(k2, t3) \<in> set v" unfolding labels by blast
      then have "(k1, v) \<in> set data \<and> v \<noteq> []" by (cases v) simp_all
      then show "k1 \<in> ?T1" by blast
    next
      fix k1 assume "k1 \<in> ?T1"
      then obtain v where v: "(k1, v) \<in> set data" "v \<noteq> []" by blast
      then obtain k2 t3 where "(k2, t3) \<in> set v" by (cases v) force+
      with v have "(k1, k2) \<in> set (index df)" unfolding labels by blast
      then show "k1 \<in> fst ` set (index df)" by force
    qed
    then show ?thesis by (simp add: unique_index1_def)
  qed
  have u2: "set (unique_index2 df) = ?T2"
  proof -
    have "snd ` set (index df) = ?T2"
    proof (intro set_eqI iffI)
      fix k2 assume "k2 \<in> snd ` set (index df)"
      then obtain k1 where "(k1, k2) \<in> set (index df)" by force
      then show "k2 \<in> ?T2" unfolding labels by blast
    next
      fix k2 assume "k2 \<in> ?T2"
      then obtain k1 v t3 where "(k1, v) \<in> set data" "(k2, t3) \<in> set v" by blast
      then have "(k1, k2) \<in> set (index df)" unfolding labels by blast
      then show "k2 \<in> snd ` set (index df)" by force
    qed
    then show ?thesis by (simp add: unique_index2_def)
  qed
  have dP: "distinct ?P"
    by (simp add: distinct_from_product unique_index1_def unique_index2_def)
  have n: "normalize_rows df = Inr ?df1" using d by (rule normalize_rows_eq)
  have len: "length (index ?df1) = card ?T1 * card ?T2"
  proof -
    have "length (unique_index1 df) = card ?T1"
      unfolding u1 [symmetric] by (simp add: unique_index1_def length_unique)
    moreover have "length (unique_index2 df) = card ?T2"
      unfolding u2 [symmetric] by (simp add: unique_index2_def length_unique)
    ultimately show ?thesis by simp
  qed
  have cells: "cells ?df1 = map (\<lambda>(k1, k2). map (\<lambda>c. Some (collected data k1 k2 c)) (columns df)) (index ?df1)"
  proof -
    have "filled_row df = (\<lambda>(k1, k2). map (\<lambda>c. Some (collected data k1 k2 c)) (columns df))"
      by (simp add: fun_eq_iff filled_row_collected [OF assms(1,3)])
    then show ?thesis by simp
  qed
  have "sorted (index ?df1)" "distinct (index ?df1)" "set (index ?df1) = ?T1 \<times> ?T2"
    "columns ?df1 = columns df"
    using dP by (simp_all add: u1 u2)
  with n len cells show ?thesis by (intro exI [of _ ?df1] conjI)
qed

text \<open>
  The hypotheses of C6's theorem hold on the dataset with a gap: its four pairs get their
  rows, and the two pairs never visited are all 0.
\<close>

theorem row_stage_cross_product_witness:
  "distinct (keys gap_data) \<and>
   concat_frames gap_data
     = Inr \<lparr>index = [(''Jan'', ''Y''), (''Feb'', ''X'')], columns = [''A'', ''B''],
            cells = [[Some 3, Some 7], [Some 1, None]]\<rparr> \<and>
   normalize_rows \<lparr>index = [(''Jan'', ''Y''), (''Feb'', ''X'')], columns = [''A'', ''B''],
            cells = [[Some 3, Some 7], [Some 1, None]]\<rparr>
     = Inr \<lparr>index = [(''Feb'', ''X''), (''Feb'', ''Y''), (''Jan'', ''X''), (''Jan'', ''Y'')],
            columns = [''A'', ''B''],
            cells = [[Some 1, Some 0], [Some 0, Some 0], [Some 0, Some 0], [Some 3, Some 7]]\<rparr> \<and>
   card {k1. \<exists>v. (k1, v) \<in> set gap_data \<and> v \<noteq> []}
     * card {k2. \<exists>k1 v t3. (k1, v) \<in> set gap_data \<and> (k2, t3) \<in> set v} = 4"
proof -
  let ?df = "\<lparr>index = [(''Jan'', ''Y''), (''Feb'', ''X'')], columns = [''A'', ''B''],
            cells = [[Some 3, Some 7], [Some 1, None]]\<rparr>"
  let ?df1 = "\<lparr>index = [(''Feb'', ''X''), (''Feb'', ''Y''), (''Jan'', ''X''), (''Jan'', ''Y'')],
            columns = [''A'', ''B''],
            cells = [[Some 1, Some 0], [Some 0, Some 0], [Some 0, Some 0], [Some 3, Some 7]]\<rparr>"
  have h1: "distinct (keys gap_data)" by (simp add: gap_data_def keys_def)
  have h2: "\<forall>(k1, v) \<in> set gap_data. distinct (keys v)" by (simp add: gap_data_def keys_def)
  have h3: "concat_frames gap_data = Inr ?df" by code_simp
  have n: "normalize_rows ?df = Inr ?df1" by code_simp
  from row_stage_cross_product [OF h1 h2 h3] n
  have "length (index ?df1) = card {k1. \<exists>v. (k1, v) \<in> set gap_data \<and> v \<noteq> []}
     * card {k2. \<exists>k1 v t3. (k1, v) \<in> set gap_data \<and> (k2, t3) \<in> set v}"
    by auto
  then have "card {k1. \<exists>v. (k1, v) \<in> set gap_data \<and> v \<noteq> []}
     * card {k2. \<exists>k1 v t3. (k1, v) \<in> set gap_data \<and> (k2, t3) \<in> set v} = 4"
    by simp
  with h1 h3 n show ?thesis by (intro conjI)
qed

text \<open>
  C6, the claim as stated, on the dataset whose table-1 name B has no table-2 entry: B and X
  are names of the dataset, yet the frame and the row stage have the one row (A, X) and none
  for (B, X); and \<^verbatim>\<open>clean_dataset\<close> returns no normalized result at all.
\<close>

theorem empty_table2_counterexample:
  "keys empty_row_data = [''A'', ''B''] \<and>
   concat_frames empty_row_data
     = Inr \<lparr>index = [(''A'', ''X'')], columns = [''M''], cells = [[Some 3]]\<rparr> \<and>
   normalize_rows \<lparr>index = [(''A'', ''X'')], columns = [''M''], cells = [[Some 3]]\<rparr>
     = Inr \<lparr>index = [(''A'', ''X'')], columns = [''M''], cells = [[Some 3]]\<rparr> \<and>
   clean_dataset example_library [''T1'', ''T2'', ''T3'']
       \<lparr>index = [(''A'', ''X'')], columns = [''M''], cells = [[Some 3]]\<rparr>
     = Inl TypeError"
  by code_simp

section \<open>Idempotence (C5)\<close>

lemma index_of_None_iff: "index_of xs x = None \<longleftrightarrow> x \<notin> set xs"
  by (induction xs) auto

lemma index_of_append_last: "x \<notin> set xs \<Longrightarrow> index_of (xs @ [x]) x = Some (length xs)"
  by (induction xs) auto

lemma row_sum_append: "row_sum (row @ [Some s]) = row_sum row + s"
  by (simp add: row_sum_def)

lemma set_total_new:
  "''Total'' \<notin> set (columns df) \<Longrightarrow>
     set_total df = df\<lparr>columns := columns df @ [''Total''],
                       cells := map (\<lambda>row. row @ [Some (row_sum row)]) (cells df)\<rparr>"
  using index_of_None_iff [of "columns df" "''Total''"] by (simp add: set_total_def)

lemma set_total_twice:
  assumes t: "''Total'' \<notin> set (columns df)"
    and w: "\<forall>row \<in> set (cells df). length row = length (columns df)"
  shows "set_total (set_total df) = df\<lparr>columns := columns df @ [''Total''],
                       cells := map (\<lambda>row. row @ [Some (2 * row_sum row)]) (cells df)\<rparr>"
proof -
  let ?df1 = "df\<lparr>columns := columns df @ [''Total''],
                       cells := map (\<lambda>row. row @ [Some (row_sum row)]) (cells df)\<rparr>"
  have i: "index_of (columns ?df1) ''Total'' = Some (length (columns df))"
    using t by (simp add: index_of_append_last)
  have "(row @ [Some (row_sum row)])[length (columns df) := Some (row_sum (row @ [Some (row_sum row)]))]
      = row @ [Some (2 * row_sum row)]" if "row \<in> set (cells df)" for row
  proof -
    from that w have "length (columns df) = length row" by simp
    then show ?thesis by (simp add: row_sum_append)
  qed
  then have "map (\<lambda>row. row[length (columns df) := Some (row_sum row)]) (cells ?df1)
      = map (\<lambda>row. row @ [Some (2 * row_sum row)]) (cells df)"
    by (simp add: comp_def)
  with i have "set_total ?df1 = ?df1\<lparr>cells := map (\<lambda>row. row @ [Some (2 * row_sum row)]) (cells df)\<rparr>"
    by (simp add: set_total_def)
  with set_total_new [OF t] show ?thesis by simp
qed

text \<open>
  C5, amended. The row stage of normalization (lines 472 to 481: reindexing to the cross
  product, filling with 0, sorting the rows) is idempotent: applied to its own result it
  returns that result. The Total step (line 487) is not: it sums all columns of the frame,
  an existing Total included, so applied a second time (to a frame whose rows all have one
  cell per column) it replaces each Total by twice the sum of the row's data cells.
\<close>

theorem row_stage_idempotent_total_step_not:
  "(normalize_rows df = Inr df1 \<longrightarrow> normalize_rows df1 = Inr df1) \<and>
   (''Total'' \<notin> set (columns df) \<longrightarrow> (\<forall>row \<in> set (cells df). length row = length (columns df)) \<longrightarrow>
      set_total (set_total df)
        = (set_total df)\<lparr>cells := map (\<lambda>row. row @ [Some (2 * row_sum row)]) (cells df)\<rparr>)"
proof (intro conjI impI)
  assume "normalize_rows df = Inr df1"
  then show "normalize_rows df1 = Inr df1" by (rule normalize_rows_idempotent)
next
  assume t: "''Total'' \<notin> set (columns df)"
    and w: "\<forall>row \<in> set (cells df). length row = length (columns df)"
  from set_total_twice [OF t w] set_total_new [OF t]
  show "set_total (set_total df)
        = (set_total df)\<lparr>cells := map (\<lambda>row. row @ [Some (2 * row_sum row)]) (cells df)\<rparr>"
    by simp
qed

text \<open>
  The hypotheses of C5's theorem hold on the one-row frame with the data columns A: 3 and
  B: 7: the row stage leaves it as it is, the Total step gives Total 10, and a second Total
  step gives Total 20.
\<close>

theorem row_stage_idempotent_total_step_not_witness:
  "normalize_rows untotalled_frame = Inr untotalled_frame \<and>
   ''Total'' \<notin> set (columns untotalled_frame) \<and>
   set_total untotalled_frame = totalled_frame \<and>
   set_total (set_total untotalled_frame) = totalled_frame\<lparr>cells := [[Some 3, Some 7, Some 20]]\<rparr>"
proof -
  have n: "normalize_rows untotalled_frame = Inr untotalled_frame" by code_simp
  have t: "''Total'' \<notin> set (columns untotalled_frame)" by (simp add: untotalled_frame_def)
  have w: "\<forall>row \<in> set (cells untotalled_frame). length row = length (columns untotalled_frame)"
    by (simp add: untotalled_frame_def)
  have s: "set_total untotalled_frame = totalled_frame" by code_simp
  from row_stage_idempotent_total_step_not [of untotalled_frame untotalled_frame] n t w
  have "set_total (set_total untotalled_frame)
      = (set_total untotalled_frame)\<lparr>cells := map (\<lambda>row. row @ [Some (2 * row_sum row)])
          (cells untotalled_frame)\<rparr>"
    by blast
  then have "set_total (set_total untotalled_frame) = totalled_frame\<lparr>cells := [[Some 3, Some 7, Some 20]]\<rparr>"
    by (simp add: s) (simp add: untotalled_frame_def row_sum_def)
  with n t s show ?thesis by (intro conjI)
qed

text \<open>
  C5, the claim as stated, on the normalized one-row frame with A: 3, B: 7 and Total: 10
  (the frame the Total step gives for A: 3 and B: 7): the Total step changes its Total to
  20, and \<^verbatim>\<open>clean_dataset\<close> as a whole does not return the frame but raises TypeError.
\<close>

theorem normalized_frame_changed_counterexample:
  "set_total untotalled_frame = totalled_frame \<and>
   set_total totalled_frame = totalled_frame\<lparr>cells := [[Some 3, Some 7, Some 20]]\<rparr> \<and>
   clean_dataset example_library [''T1'', ''T2'', ''T3''] totalled_frame = Inl TypeError"
  by code_simp

section \<open>Sorted rows and columns (C4)\<close>

text \<open>
  C4 says that after normalization the rows are sorted by (T1, T2) and the columns are
  sorted with Total last. The code sorts the rows (lines 472 to 481 return a frame with
  sorted row labels and the columns as they were), but line 484 calls
  \<^verbatim>\<open>sorted(self.df.columns, axis=1)\<close>, which raises TypeError: for every frame
  \<^verbatim>\<open>clean_dataset\<close> raises (TypeError, or ValueError for a frame with a repeated row
  label) and returns no normalized frame, whatever the two library calls behind line 484
  would do.
\<close>

theorem clean_dataset_raises:
  "clean_dataset lib axes df = (if distinct (index df) then Inl TypeError else Inl ValueError) \<and>
   (normalize_rows df = Inr df1 \<longrightarrow> sorted (index df1) \<and> columns df1 = columns df)"
proof (intro conjI impI)
  show "clean_dataset lib axes df = (if distinct (index df) then Inl TypeError else Inl ValueError)"
    by (rule clean_dataset_never_returns)
next
  assume n: "normalize_rows df = Inr df1"
  then have d: "distinct (index df)"
    by (auto simp: normalize_rows_def reindex_def split: if_splits)
  from normalize_rows_eq [OF d] n show "sorted (index df1)" and "columns df1 = columns df" by auto
qed

text \<open>
  On a two-row frame with the columns B, A: the row stage sorts the rows and leaves the
  columns in the order B, A, and \<^verbatim>\<open>clean_dataset\<close> raises TypeError.
\<close>

theorem clean_dataset_raises_witness:
  "normalize_rows \<lparr>index = [(''Jan'', ''Y''), (''Feb'', ''X'')], columns = [''B'', ''A''],
            cells = [[Some 7, Some 3], [None, Some 1]]\<rparr>
     = Inr \<lparr>index = [(''Feb'', ''X''), (''Feb'', ''Y''), (''Jan'', ''X''), (''Jan'', ''Y'')],
            columns = [''B'', ''A''],
            cells = [[Some 0, Some 1], [Some 0, Some 0], [Some 0, Some 0], [Some 7, Some 3]]\<rparr> \<and>
   sorted [(''Feb'', ''X''), (''Feb'', ''Y''), (''Jan'', ''X''), (''Jan'', ''Y'')] \<and>
   clean_dataset example_library [''T1'', ''T2'', ''T3'']
       \<lparr>index = [(''Jan'', ''Y''), (''Feb'', ''X'')], columns = [''B'', ''A''],
            cells = [[Some 7, Some 3], [None, Some 1]]\<rparr> = Inl TypeError"
proof -
  let ?df = "\<lparr>index = [(''Jan'', ''Y''), (''Feb'', ''X'')], columns = [''B'', ''A''],
            cells = [[Some 7, Some 3], [None, Some 1]]\<rparr>"
  let ?df1 = "\<lparr>index = [(''Feb'', ''X''), (''Feb'', ''Y''), (''Jan'', ''X''), (''Jan'', ''Y'')],
            columns = [''B'', ''A''],
            cells = [[Some 0, Some 1], [Some 0, Some 0], [Some 0, Some 0], [Some 7, Some 3]]\<rparr>"
  have n: "normalize_rows ?df = Inr ?df1" by code_simp
  from clean_dataset_raises [of example_library "[''T1'', ''T2'', ''T3'']" ?df ?df1] n
  have "sorted (index ?df1)"
    and "clean_dataset example_library [''T1'', ''T2'', ''T3''] ?df = Inl TypeError"
    by simp_all
  with n show ?thesis by simp
qed

section \<open>The Total column (C9)\<close>

text \<open>
  C9 says that every row's Total in the normalized dataset is the sum of the row's data
  columns, 10 for A: 3 and B: 7. The Total step of line 487 computes exactly that for a
  frame without a Total column, but it is never reached: on the frame with A: 3 and B: 7
  \<^verbatim>\<open>clean_dataset\<close> raises TypeError at line 484 and no Total is ever stored.
\<close>

theorem total_step_unreached:
  "(''Total'' \<notin> set (columns df) \<longrightarrow>
      columns (set_total df) = columns df @ [''Total''] \<and>
      cells (set_total df) = map (\<lambda>row. row @ [Some (row_sum row)]) (cells df)) \<and>
   row_sum [Some 3, Some 7] = 10 \<and>
   clean_dataset lib axes untotalled_frame = Inl TypeError"
proof (intro conjI impI)
  assume t: "''Total'' \<notin> set (columns df)"
  from set_total_new [OF t] show "columns (set_total df) = columns df @ [''Total'']"
    and "cells (set_total df) = map (\<lambda>row. row @ [Some (row_sum row)]) (cells df)" by simp_all
next
  show "row_sum [Some 3, Some 7] = 10" by (simp add: row_sum_def)
next
  show "clean_dataset lib axes untotalled_frame = Inl TypeError"
    by (simp add: clean_dataset_never_returns untotalled_frame_def)
qed

text \<open>The Total step on the frame with A: 3 and B: 7, and \<^verbatim>\<open>clean_dataset\<close> on the same frame.\<close>

theorem total_step_unreached_witness:
  "''Total'' \<notin> set (columns untotalled_frame) \<and>
   columns (set_total untotalled_frame) = [''A'', ''B'', ''Total''] \<and>
   cells (set_total untotalled_frame) = [[Some 3, Some 7, Some 10]] \<and>
   clean_dataset example_library [''T1'', ''T2'', ''T3''] untotalled_frame = Inl TypeError"
proof -
  have t: "''Total'' \<notin> set (columns untotalled_frame)" by (simp add: untotalled_frame_def)
  from total_step_unreached [of untotalled_frame example_library "[''T1'', ''T2'', ''T3'']"] t
  have "columns (set_total untotalled_frame) = columns untotalled_frame @ [''Total'']"
    and "cells (set_total untotalled_frame)
        = map (\<lambda>row. row @ [Some (row_sum row)]) (cells untotalled_frame)"
    and c: "clean_dataset example_library [''T1'', ''T2'', ''T3''] untotalled_frame = Inl TypeError"
    by simp_all
  then have "columns (set_total untotalled_frame) = [''A'', ''B'', ''Total'']"
    and "cells (set_total untotalled_frame) = [[Some 3, Some 7, Some 10]]"
    by (simp_all add: untotalled_frame_def row_sum_def)
  with t c show ?thesis by simp
qed

(* LEMMAS-END *)

end
